theory Spec2Isabelle
  imports Main
begin

section \<open>Python values, types and exceptions\<close>

text \<open>
  The exceptions that the two modules can end with. \<open>TypeError\<close>, \<open>ValueError\<close>,
  \<open>KeyError\<close>, \<open>IndexError\<close> and \<open>AttributeError\<close> are Python's own classes, with the
  offending name or the message as argument. \<open>UnsetAttributeError\<close> stands for Python's
  failure on using an attribute that no \<open>fit\<close> has assigned yet: an \<open>AttributeError\<close>
  when the attribute does not exist, a \<open>TypeError\<close> when it holds \<open>None\<close> (which of
  the two depends on the base class constructor, which is not part of the two modules).
  \<open>NotFittedError\<close> is an explicit not-fitted error; no statement of the two modules
  raises it, a step may. \<open>StepError\<close> is any other exception raised inside a step.
\<close>

datatype exn =
    TypeError string
  | ValueError string
  | KeyError string
  | IndexError
  | AttributeError string
  | UnsetAttributeError string
  | NotFittedError
  | StepError string

text \<open>
  The arguments of the pipeline are dynamically typed: a table (\<open>PyDataFrame\<close>), a
  column (\<open>PySeries\<close>), a dictionary from step tags to such objects, a list, \<open>None\<close>,
  a string, or an object of any other class (named by its class). The contents \<open>'d\<close> of
  tables and columns are left abstract.
\<close>

datatype 'd pyobj =
    PyNone
  | PyStr string
  | PyList "'d pyobj list"
  | PyDict "(string \<times> 'd pyobj) list"
  | PyDataFrame 'd
  | PySeries 'd
  | PyOther string

text \<open>The type names of \<open>iguanas.utils.types\<close> that the two modules import.\<close>

datatype py_type =
    PandasDataFrame
  | PandasSeries
  | Dictionary
  | ClassList
  | ClassNoneType
  | ClassStr
  | OtherType string

fun py_type_of :: "'d pyobj \<Rightarrow> py_type" where
  "py_type_of PyNone = ClassNoneType"
| "py_type_of (PyStr s) = ClassStr"
| "py_type_of (PyList xs) = ClassList"
| "py_type_of (PyDict kvs) = Dictionary"
| "py_type_of (PyDataFrame d) = PandasDataFrame"
| "py_type_of (PySeries d) = PandasSeries"
| "py_type_of (PyOther c) = OtherType c"

text \<open>
  Modelled from the spec: \<open>utils.check_allowed_types(x, x_name, allowed_types)\<close> is
  called by the pipeline and is not part of the two modules. The specification says that
  an argument of the wrong container kind is rejected with a type error that identifies
  the offending argument; an argument of an allowed kind passes.
\<close>

definition check_allowed_types :: "'d pyobj \<Rightarrow> string \<Rightarrow> py_type list \<Rightarrow> exn + unit" where
  "check_allowed_types x x_name allowed_types =
     (if py_type_of x \<in> set allowed_types then Inr () else Inl (TypeError x_name))"

section \<open>class\_accessor.py\<close>

record ClassAccessor =
  class_tag :: string
  class_attribute :: string

text \<open>
  \<open>ClassAccessor.get\<close>: \<open>pipeline_params\<close> is a dictionary from step tags to
  dictionaries from attribute names to values. Subscripting the inner dictionary with a
  missing key raises Python's \<open>KeyError\<close> of that key.
\<close>

definition get :: "ClassAccessor \<Rightarrow> (string \<rightharpoonup> (string \<rightharpoonup> 'v)) \<Rightarrow> exn + 'v" where
  "get self pipeline_params =
     (if class_tag self \<in> dom pipeline_params then
        (case the (pipeline_params (class_tag self)) (class_attribute self) of
           None \<Rightarrow> Inl (KeyError (class_attribute self))
         | Some v \<Rightarrow> Inr v)
      else
        Inl (ValueError
          (''There are no steps in `pipeline` corresponding to `class_tag`='' @
           [CHR 0x27] @ class_tag self @ [CHR 0x27])))"

section \<open>linear\_pipeline.py\<close>

subsection \<open>Steps, the object store and the calls on steps\<close>

text \<open>
  Step objects are mutable and shared by reference, so they live in a store: a step is
  an address, the store is the list of the objects' states, and a new object is appended.
  The state \<open>'st\<close> of a step is opaque.
\<close>

type_synonym addr = nat

definition step_states :: "(string \<times> addr) list \<Rightarrow> 'st list \<Rightarrow> (string \<times> 'st) list" where
  "step_states sts h = map (\<lambda>(t, a). (t, h ! a)) sts"

text \<open>
  The collaborators of the pipeline that are not part of the two modules are parameters
  of the model. The four helpers \<open>_pipeline_fit_transform\<close>, \<open>_pipeline_fit\<close>,
  \<open>_pipeline_transform\<close> and \<open>_pipeline_predict\<close> of the base class run one method of
  one step: each is given the tag-ordered states of the pipeline's fitted steps (what a
  step may read of the earlier steps through an accessor), the arguments of the call and
  the state of the step, and returns the result or the exception together with the
  step's new state. \<open>step_rules\<close> reads the attribute \<open>rules\<close> of a step (\<open>None\<close> when the
  step has no such attribute) and \<open>df_copy\<close> is the \<open>copy\<close> method of a table.
\<close>

record ('st, 'd, 'r) collaborators =
  pipeline_fit_transform ::
    "(string \<times> 'st) list \<Rightarrow> string \<Rightarrow> 'st \<Rightarrow> 'd pyobj \<Rightarrow> 'd pyobj \<Rightarrow> 'd pyobj
       \<Rightarrow> (exn + 'd pyobj) \<times> 'st"
  pipeline_fit ::
    "(string \<times> 'st) list \<Rightarrow> string \<Rightarrow> 'st \<Rightarrow> 'd pyobj \<Rightarrow> 'd pyobj \<Rightarrow> 'd pyobj
       \<Rightarrow> (exn + 'd pyobj) \<times> 'st"
  pipeline_transform ::
    "(string \<times> 'st) list \<Rightarrow> string \<Rightarrow> 'st \<Rightarrow> 'd pyobj \<Rightarrow> (exn + 'd pyobj) \<times> 'st"
  pipeline_predict ::
    "(string \<times> 'st) list \<Rightarrow> 'st \<Rightarrow> 'd pyobj \<Rightarrow> (exn + 'd pyobj) \<times> 'st"
  step_rules :: "'st \<Rightarrow> 'r option"
  df_copy :: "'d \<Rightarrow> 'd"

text \<open>One call of the pipeline on a step: the method, the tag, the input and the outcome.\<close>

datatype step_method = FitTransform | Fit | Transform | Predict

record 'd call =
  c_method :: step_method
  c_tag :: string
  c_X :: "'d pyobj"
  c_out :: "exn + 'd pyobj"

text \<open>
  \<open>copy.deepcopy\<close> of a list of \<open>(tag, step)\<close> pairs: every step object is copied into
  a new object, and an object that occurs twice is copied once (the memo of
  \<open>deepcopy\<close>), so the copies share among themselves what the originals share.
\<close>

fun deepcopy_memo ::
  "(addr \<times> addr) list \<Rightarrow> (string \<times> addr) list \<Rightarrow> 'st list \<Rightarrow> (string \<times> addr) list \<times> 'st list"
where
  "deepcopy_memo memo [] h = ([], h)"
| "deepcopy_memo memo ((t, a) # xs) h =
     (case map_of memo a of
        Some a' \<Rightarrow>
          (let (ys, h') = deepcopy_memo memo xs h in ((t, a') # ys, h'))
      | None \<Rightarrow>
          (let a' = length h;
               (ys, h') = deepcopy_memo ((a, a') # memo) xs (h @ [h ! a])
           in ((t, a') # ys, h')))"

definition deepcopy :: "(string \<times> addr) list \<Rightarrow> 'st list \<Rightarrow> (string \<times> addr) list \<times> 'st list" where
  "deepcopy xs h = deepcopy_memo [] xs h"

text \<open>
  \<open>X.copy()\<close>: the \<open>copy\<close> method of a table or column, the shallow copy of a
  dictionary or list (the same value), and no such method on the other objects.
\<close>

fun py_copy :: "('st, 'd, 'r) collaborators \<Rightarrow> 'd pyobj \<Rightarrow> exn + 'd pyobj" where
  "py_copy E (PyDataFrame d) = Inr (PyDataFrame (df_copy E d))"
| "py_copy E (PySeries d) = Inr (PySeries (df_copy E d))"
| "py_copy E (PyDict kvs) = Inr (PyDict kvs)"
| "py_copy E (PyList xs) = Inr (PyList xs)"
| "py_copy E PyNone = Inl (AttributeError ''copy'')"
| "py_copy E (PyStr s) = Inl (AttributeError ''copy'')"
| "py_copy E (PyOther c) = Inl (AttributeError ''copy'')"

subsection \<open>The pipeline object\<close>

text \<open>
  The attributes of a \<open>LinearPipeline\<close>. \<open>steps_fitted\<close> is the attribute \<open>steps_\<close> of
  the source and \<open>None\<close> in \<open>steps_fitted\<close> and \<open>rules\<close> means that no \<open>fit\<close> has assigned
  the attribute. \<open>use_init_data\<close> is \<open>None\<close> or a list, as the constructor checks.
\<close>

record ('d, 'r) LinearPipeline =
  steps :: "(string \<times> addr) list"
  use_init_data :: "'d pyobj list option"
  steps_fitted :: "(string \<times> addr) list option"
  rules :: "'r option"

text \<open>
  Modelled from the spec: \<open>_BasePipeline.__init__(self, steps)\<close>, the constructor of the
  base class, is not part of the two modules. It stores \<open>steps\<close>, and the pipeline it
  makes is unfitted: \<open>steps_\<close> and \<open>rules\<close> are not assigned.
\<close>

definition base_init :: "(string \<times> addr) list \<Rightarrow> ('d, 'r) LinearPipeline" where
  "base_init steps0 =
     \<lparr>steps = steps0, use_init_data = None, steps_fitted = None, rules = None\<rparr>"

text \<open>
  \<open>LinearPipeline.__init__\<close>: the attribute \<open>use_init_data\<close> is the argument, which
  the check has found to be a list or \<open>None\<close>.
\<close>

definition init :: "(string \<times> addr) list \<Rightarrow> 'd pyobj \<Rightarrow> exn + ('d, 'r) LinearPipeline" where
  "init steps0 use_init_data0 =
     (case check_allowed_types use_init_data0 ''use_init_data'' [ClassList, ClassNoneType] of
        Inl e \<Rightarrow> Inl e
      | Inr _ \<Rightarrow>
          Inr ((base_init steps0)
                 \<lparr>use_init_data := (case use_init_data0 of PyList tags \<Rightarrow> Some tags | _ \<Rightarrow> None)\<rparr>))"

text \<open>\<open>LinearPipeline._return_X\<close>\<close>

definition return_X :: "('d, 'r) LinearPipeline \<Rightarrow> string \<Rightarrow> 'd pyobj \<Rightarrow> 'd pyobj \<Rightarrow> 'd pyobj" where
  "return_X self step_tag X X_init =
     (if use_init_data self \<noteq> None \<and> PyStr step_tag \<in> set (the (use_init_data self))
      then X_init else X)"

text \<open>
  \<open>LinearPipeline._copy_X_if_use_init_data\<close>: \<open>None\<close> and the empty list are false in
  Python.
\<close>

definition copy_X_if_use_init_data ::
  "('st, 'd, 'r) collaborators \<Rightarrow> ('d, 'r) LinearPipeline \<Rightarrow> 'd pyobj \<Rightarrow> exn + 'd pyobj"
where
  "copy_X_if_use_init_data E self X =
     (if use_init_data self \<noteq> None \<and> the (use_init_data self) \<noteq> []
      then py_copy E X else Inr PyNone)"

subsection \<open>Outcomes\<close>

text \<open>
  A method of the pipeline ends with a result or an exception, the attributes of the
  pipeline and the store as the method leaves them, and the calls it has made on steps,
  in order.
\<close>

record ('st, 'd, 'r) outcome =
  result :: "exn + 'd pyobj"
  self_after :: "('d, 'r) LinearPipeline"
  heap_after :: "'st list"
  trace :: "'d call list"

subsection \<open>fit\<close>

text \<open>
  The loop of \<open>fit\<close> over \<open>self.steps_[:-1]\<close>. \<open>fitted\<close> is \<open>self.steps_\<close>; the loop ends at
  the first exception of a step.
\<close>

fun fit_loop ::
  "('st, 'd, 'r) collaborators \<Rightarrow> ('d, 'r) LinearPipeline \<Rightarrow> 'd pyobj \<Rightarrow> 'd pyobj \<Rightarrow> 'd pyobj
     \<Rightarrow> (string \<times> addr) list \<Rightarrow> (string \<times> addr) list \<Rightarrow> 'd pyobj \<Rightarrow> 'st list
     \<Rightarrow> (exn + 'd pyobj) \<times> 'st list \<times> 'd call list"
where
  "fit_loop E self X_init y sample_weight fitted [] X h = (Inr X, h, [])"
| "fit_loop E self X_init y sample_weight fitted ((step_tag, step) # rest) X h =
     (let X1 = return_X self step_tag X X_init;
          (r, st) = pipeline_fit_transform E (step_states fitted h) step_tag (h ! step)
                      X1 y sample_weight;
          h1 = h[step := st];
          c = \<lparr>c_method = FitTransform, c_tag = step_tag, c_X = X1, c_out = r\<rparr>
      in case r of
           Inl e \<Rightarrow> (Inl e, h1, [c])
         | Inr X2 \<Rightarrow>
             (let (r', h2, cs) = fit_loop E self X_init y sample_weight fitted rest X2 h1
              in (r', h2, c # cs)))"

text \<open>
  \<open>LinearPipeline.fit\<close>. \<open>self.steps_[-1]\<close> raises \<open>IndexError\<close> on a pipeline without
  steps, and \<open>final_step.rules\<close> raises \<open>AttributeError\<close> on a step without rules.
\<close>

definition fit ::
  "('st, 'd, 'r) collaborators \<Rightarrow> ('d, 'r) LinearPipeline \<Rightarrow> 'st list
     \<Rightarrow> 'd pyobj \<Rightarrow> 'd pyobj \<Rightarrow> 'd pyobj \<Rightarrow> ('st, 'd, 'r) outcome"
where
  "fit E self h X y sample_weight =
     (case check_allowed_types X ''X'' [PandasDataFrame, Dictionary] of
        Inl e \<Rightarrow> \<lparr>result = Inl e, self_after = self, heap_after = h, trace = []\<rparr>
      | Inr _ \<Rightarrow>
     (case check_allowed_types y ''y'' [PandasSeries, Dictionary] of
        Inl e \<Rightarrow> \<lparr>result = Inl e, self_after = self, heap_after = h, trace = []\<rparr>
      | Inr _ \<Rightarrow>
     (case (if sample_weight \<noteq> PyNone
            then check_allowed_types sample_weight ''sample_weight'' [PandasSeries, Dictionary]
            else Inr ()) of
        Inl e \<Rightarrow> \<lparr>result = Inl e, self_after = self, heap_after = h, trace = []\<rparr>
      | Inr _ \<Rightarrow>
     (case copy_X_if_use_init_data E self X of
        Inl e \<Rightarrow> \<lparr>result = Inl e, self_after = self, heap_after = h, trace = []\<rparr>
      | Inr X_init \<Rightarrow>
     (let (fitted, h0) = deepcopy (steps self) h;
          self1 = self\<lparr>steps_fitted := Some fitted\<rparr>;
          (r, h1, cs) = fit_loop E self1 X_init y sample_weight fitted (butlast fitted) X h0
      in case r of
           Inl e \<Rightarrow> \<lparr>result = Inl e, self_after = self1, heap_after = h1, trace = cs\<rparr>
         | Inr X1 \<Rightarrow>
             (if fitted = [] then
                \<lparr>result = Inl IndexError, self_after = self1, heap_after = h1, trace = cs\<rparr>
              else
                (let final_step_tag = fst (last fitted);
                     final_step = snd (last fitted);
                     X2 = return_X self1 final_step_tag X1 X_init;
                     (r', st) = pipeline_fit E (step_states fitted h1) final_step_tag
                                  (h1 ! final_step) X2 y sample_weight;
                     h2 = h1[final_step := st];
                     c = \<lparr>c_method = Fit, c_tag = final_step_tag, c_X = X2, c_out = r'\<rparr>
                 in case r' of
                      Inl e \<Rightarrow>
                        \<lparr>result = Inl e, self_after = self1, heap_after = h2,
                         trace = cs @ [c]\<rparr>
                    | Inr _ \<Rightarrow>
                        (case step_rules E (h2 ! final_step) of
                           None \<Rightarrow>
                             \<lparr>result = Inl (AttributeError ''rules''), self_after = self1,
                              heap_after = h2, trace = cs @ [c]\<rparr>
                         | Some rs \<Rightarrow>
                             \<lparr>result = Inr PyNone, self_after = self1\<lparr>rules := Some rs\<rparr>,
                              heap_after = h2, trace = cs @ [c]\<rparr>))))))))"

subsection \<open>transform and predict\<close>

text \<open>The loop of \<open>transform\<close> over \<open>self.steps_\<close> and of \<open>predict\<close> over \<open>self.steps_[:-1]\<close>.\<close>

fun transform_loop ::
  "('st, 'd, 'r) collaborators \<Rightarrow> ('d, 'r) LinearPipeline \<Rightarrow> 'd pyobj
     \<Rightarrow> (string \<times> addr) list \<Rightarrow> (string \<times> addr) list \<Rightarrow> 'd pyobj \<Rightarrow> 'st list
     \<Rightarrow> (exn + 'd pyobj) \<times> 'st list \<times> 'd call list"
where
  "transform_loop E self X_init fitted [] X h = (Inr X, h, [])"
| "transform_loop E self X_init fitted ((step_tag, step) # rest) X h =
     (let X1 = return_X self step_tag X X_init;
          (r, st) = pipeline_transform E (step_states fitted h) step_tag (h ! step) X1;
          h1 = h[step := st];
          c = \<lparr>c_method = Transform, c_tag = step_tag, c_X = X1, c_out = r\<rparr>
      in case r of
           Inl e \<Rightarrow> (Inl e, h1, [c])
         | Inr X2 \<Rightarrow>
             (let (r', h2, cs) = transform_loop E self X_init fitted rest X2 h1
              in (r', h2, c # cs)))"

text \<open>\<open>LinearPipeline.transform\<close>\<close>

definition transform ::
  "('st, 'd, 'r) collaborators \<Rightarrow> ('d, 'r) LinearPipeline \<Rightarrow> 'st list \<Rightarrow> 'd pyobj
     \<Rightarrow> ('st, 'd, 'r) outcome"
where
  "transform E self h X =
     (case check_allowed_types X ''X'' [PandasDataFrame, Dictionary] of
        Inl e \<Rightarrow> \<lparr>result = Inl e, self_after = self, heap_after = h, trace = []\<rparr>
      | Inr _ \<Rightarrow>
     (case copy_X_if_use_init_data E self X of
        Inl e \<Rightarrow> \<lparr>result = Inl e, self_after = self, heap_after = h, trace = []\<rparr>
      | Inr X_init \<Rightarrow>
     (case steps_fitted self of
        None \<Rightarrow>
          \<lparr>result = Inl (UnsetAttributeError ''steps_''), self_after = self, heap_after = h,
           trace = []\<rparr>
      | Some fitted \<Rightarrow>
          (let (r, h1, cs) = transform_loop E self X_init fitted fitted X h
           in \<lparr>result = r, self_after = self, heap_after = h1, trace = cs\<rparr>))))"

text \<open>\<open>LinearPipeline.predict\<close>\<close>

definition predict ::
  "('st, 'd, 'r) collaborators \<Rightarrow> ('d, 'r) LinearPipeline \<Rightarrow> 'st list \<Rightarrow> 'd pyobj
     \<Rightarrow> ('st, 'd, 'r) outcome"
where
  "predict E self h X =
     (case check_allowed_types X ''X'' [PandasDataFrame, Dictionary] of
        Inl e \<Rightarrow> \<lparr>result = Inl e, self_after = self, heap_after = h, trace = []\<rparr>
      | Inr _ \<Rightarrow>
     (case copy_X_if_use_init_data E self X of
        Inl e \<Rightarrow> \<lparr>result = Inl e, self_after = self, heap_after = h, trace = []\<rparr>
      | Inr X_init \<Rightarrow>
     (case steps_fitted self of
        None \<Rightarrow>
          \<lparr>result = Inl (UnsetAttributeError ''steps_''), self_after = self, heap_after = h,
           trace = []\<rparr>
      | Some fitted \<Rightarrow>
          (let (r, h1, cs) = transform_loop E self X_init fitted (butlast fitted) X h
           in case r of
                Inl e \<Rightarrow> \<lparr>result = Inl e, self_after = self, heap_after = h1, trace = cs\<rparr>
              | Inr X1 \<Rightarrow>
                  (if fitted = [] then
                     \<lparr>result = Inl IndexError, self_after = self, heap_after = h1, trace = cs\<rparr>
                   else
                     (let final_step_tag = fst (last fitted);
                          final_step = snd (last fitted);
                          X2 = return_X self final_step_tag X1 X_init;
                          (r', st) = pipeline_predict E (step_states fitted h1)
                                       (h1 ! final_step) X2;
                          h2 = h1[final_step := st];
                          c = \<lparr>c_method = Predict, c_tag = final_step_tag, c_X = X2,
                               c_out = r'\<rparr>
                      in \<lparr>result = r', self_after = self, heap_after = h2,
                          trace = cs @ [c]\<rparr>))))))"

subsection \<open>fit\_transform and fit\_predict\<close>

text \<open>
  \<open>LinearPipeline.fit_transform\<close> and \<open>LinearPipeline.fit_predict\<close>: an exception of
  \<open>fit\<close> ends the method; otherwise the second method runs on the pipeline and the store
  as \<open>fit\<close> has left them, with the \<open>X\<close> of the caller.
\<close>

definition fit_transform ::
  "('st, 'd, 'r) collaborators \<Rightarrow> ('d, 'r) LinearPipeline \<Rightarrow> 'st list
     \<Rightarrow> 'd pyobj \<Rightarrow> 'd pyobj \<Rightarrow> 'd pyobj \<Rightarrow> ('st, 'd, 'r) outcome"
where
  "fit_transform E self h X y sample_weight =
     (let o1 = fit E self h X y sample_weight
      in case result o1 of
           Inl e \<Rightarrow> o1
         | Inr _ \<Rightarrow>
             (let o2 = transform E (self_after o1) (heap_after o1) X
              in o2\<lparr>trace := trace o1 @ trace o2\<rparr>))"

definition fit_predict ::
  "('st, 'd, 'r) collaborators \<Rightarrow> ('d, 'r) LinearPipeline \<Rightarrow> 'st list
     \<Rightarrow> 'd pyobj \<Rightarrow> 'd pyobj \<Rightarrow> 'd pyobj \<Rightarrow> ('st, 'd, 'r) outcome"
where
  "fit_predict E self h X y sample_weight =
     (let o1 = fit E self h X y sample_weight
      in case result o1 of
           Inl e \<Rightarrow> o1
         | Inr _ \<Rightarrow>
             (let o2 = predict E (self_after o1) (heap_after o1) X
              in o2\<lparr>trace := trace o1 @ trace o2\<rparr>))"

section \<open>Traces and sequences of calls\<close>

text \<open>
  How the inputs of the calls of a trace depend on the outputs before them: the input of
  each call is what \<open>_return_X\<close> selects for its tag from the running \<open>X\<close> and
  \<open>X_init\<close>, the running \<open>X\<close> of the next call is the output of the call, and no call
  follows an exception.
\<close>

fun threaded :: "('d, 'r) LinearPipeline \<Rightarrow> 'd pyobj \<Rightarrow> 'd pyobj \<Rightarrow> 'd call list \<Rightarrow> bool" where
  "threaded self X_init X [] = True"
| "threaded self X_init X (c # cs) =
     (c_X c = return_X self (c_tag c) X X_init \<and>
      (case c_out c of Inl e \<Rightarrow> cs = [] | Inr X' \<Rightarrow> threaded self X_init X' cs))"

text \<open>The outcome of the last call of a trace that started from \<open>X\<close>.\<close>

definition last_out :: "'d pyobj \<Rightarrow> 'd call list \<Rightarrow> exn + 'd pyobj" where
  "last_out X cs = (if cs = [] then Inr X else c_out (last cs))"

text \<open>
  The pipeline and the store after any number of calls of \<open>transform\<close> and \<open>predict\<close>,
  with any arguments.
\<close>

inductive after_calls ::
  "('st, 'd, 'r) collaborators \<Rightarrow> ('d, 'r) LinearPipeline \<times> 'st list
     \<Rightarrow> ('d, 'r) LinearPipeline \<times> 'st list \<Rightarrow> bool"
  for E :: "('st, 'd, 'r) collaborators" and s :: "('d, 'r) LinearPipeline \<times> 'st list"
where
  no_call: "after_calls E s s"
| transform_call:
    "after_calls E s (self, h) \<Longrightarrow>
     after_calls E s (self_after (transform E self h X), heap_after (transform E self h X))"
| predict_call:
    "after_calls E s (self, h) \<Longrightarrow>
     after_calls E s (self_after (predict E self h X), heap_after (predict E self h X))"

text \<open>
  The pipeline and the store before any successful \<open>fit\<close>: \<open>steps_\<close> is not assigned
  at first, and then any number of calls of \<open>fit\<close> that end with an exception, of
  \<open>transform\<close> and of \<open>predict\<close> follow, with any arguments.
\<close>

inductive never_fitted ::
  "('st, 'd, 'r) collaborators \<Rightarrow> ('d, 'r) LinearPipeline \<times> 'st list \<Rightarrow> bool"
  for E :: "('st, 'd, 'r) collaborators"
where
  nf_unfitted: "steps_fitted self = None \<Longrightarrow> never_fitted E (self, h)"
| nf_failed_fit:
    "never_fitted E (self, h) \<Longrightarrow> result (fit E self h X y sample_weight) = Inl e \<Longrightarrow>
     never_fitted E (self_after (fit E self h X y sample_weight),
                     heap_after (fit E self h X y sample_weight))"
| nf_transform:
    "never_fitted E (self, h) \<Longrightarrow>
     never_fitted E (self_after (transform E self h X), heap_after (transform E self h X))"
| nf_predict:
    "never_fitted E (self, h) \<Longrightarrow>
     never_fitted E (self_after (predict E self h X), heap_after (predict E self h X))"


section \<open>Example steps\<close>

text \<open>
  Steps for the concrete runs below. A table is a pair of an object identity and a
  number, and the copy of a table is a new object with the same number. The state of a
  step is the list of the numbers it was fitted on; fitting on anything but a table
  fails. \<open>fit_transform\<close> and \<open>transform\<close> return a new table with the number
  increased by ten, \<open>predict\<close> returns a column, and the rules of a step are the
  numbers it was fitted on.
\<close>

definition demo :: "(nat list, nat \<times> nat, nat list) collaborators" where
  "demo =
     \<lparr>pipeline_fit_transform =
        (\<lambda>params step_tag st X y sample_weight.
           case X of PyDataFrame (i, v) \<Rightarrow> (Inr (PyDataFrame (i + 2, v + 10)), st @ [v])
                   | _ \<Rightarrow> (Inl (StepError step_tag), st)),
      pipeline_fit =
        (\<lambda>params step_tag st X y sample_weight.
           case X of PyDataFrame (i, v) \<Rightarrow> (Inr PyNone, st @ [v])
                   | _ \<Rightarrow> (Inl (StepError step_tag), st)),
      pipeline_transform =
        (\<lambda>params step_tag st X.
           case X of PyDataFrame (i, v) \<Rightarrow> (Inr (PyDataFrame (i + 2, v + 10)), st)
                   | _ \<Rightarrow> (Inl (StepError step_tag), st)),
      pipeline_predict =
        (\<lambda>params st X.
           case X of PyDataFrame (i, v) \<Rightarrow> (Inr (PySeries (i + 2, v + length st)), st)
                   | _ \<Rightarrow> (Inl (StepError ''predict''), st)),
      step_rules = (\<lambda>st. Some st),
      df_copy = (\<lambda>(i, v). (i + 1, v))\<rparr>"

text \<open>
  The pipeline \<open>[("gen", StepA), ("opt", StepB)]\<close> of the scenario, on a store that
  holds the two unfitted steps, with and without \<open>use_init_data\<close>.
\<close>

definition gen_opt :: "(string \<times> addr) list" where
  "gen_opt = [(''gen'', 0), (''opt'', 1)]"

definition pipe_init :: "(nat \<times> nat, nat list) LinearPipeline" where
  "pipe_init =
     \<lparr>steps = gen_opt, use_init_data = Some [PyStr ''opt''], steps_fitted = None, rules = None\<rparr>"

definition pipe_plain :: "(nat \<times> nat, nat list) LinearPipeline" where
  "pipe_plain = \<lparr>steps = gen_opt, use_init_data = None, steps_fitted = None, rules = None\<rparr>"

definition pipe_first :: "(nat \<times> nat, nat list) LinearPipeline" where
  "pipe_first =
     \<lparr>steps = gen_opt, use_init_data = Some [PyStr ''gen''], steps_fitted = None, rules = None\<rparr>"

text \<open>The store with the two unfitted steps, a table and a target column.\<close>

definition store0 :: "nat list list" where
  "store0 = [[], []]"

definition table0 :: "(nat \<times> nat) pyobj" where
  "table0 = PyDataFrame (0, 5)"

definition target0 :: "(nat \<times> nat) pyobj" where
  "target0 = PySeries (7, 3)"

text \<open>The pipeline with \<open>use_init_data\<close> and the store after its \<open>fit\<close> on the table.\<close>

definition pipe_init_fitted :: "(nat \<times> nat, nat list) LinearPipeline" where
  "pipe_init_fitted =
     \<lparr>steps = gen_opt, use_init_data = Some [PyStr ''opt''],
      steps_fitted = Some [(''gen'', 2), (''opt'', 3)], rules = Some [5]\<rparr>"

definition store_fitted :: "nat list list" where
  "store_fitted = [[], [], [5], [5]]"

text \<open>
  A dictionary without tables, on which the example steps fail, and the plain pipeline
  and the store after its \<open>fit\<close> on this dictionary has failed in the first step.
\<close>

definition dict0 :: "(nat \<times> nat) pyobj" where
  "dict0 = PyDict []"

definition pipe_plain_failed :: "(nat \<times> nat, nat list) LinearPipeline" where
  "pipe_plain_failed =
     \<lparr>steps = gen_opt, use_init_data = None,
      steps_fitted = Some [(''gen'', 2), (''opt'', 3)], rules = None\<rparr>"

definition store_failed :: "nat list list" where
  "store_failed = [[], [], [], []]"

section \<open>Auxiliary facts\<close>

subsection \<open>Threaded traces, the loops and the case analysis of the methods\<close>

lemma return_X_cong:
  "use_init_data self' = use_init_data self \<Longrightarrow> return_X self' t X Xi = return_X self t X Xi"
  by (simp add: return_X_def)

lemma threaded_cong:
  "use_init_data self' = use_init_data self \<Longrightarrow> threaded self' Xi X cs = threaded self Xi X cs"
  by (induction cs arbitrary: X) (auto simp: return_X_def split: sum.splits)

lemma threaded_snoc:
  "threaded self Xi X cs \<Longrightarrow> last_out X cs = Inr X1 \<Longrightarrow>
   c_X c = return_X self (c_tag c) X1 Xi \<Longrightarrow> threaded self Xi X (cs @ [c])"
  by (induction cs arbitrary: X) (auto simp: last_out_def split: sum.splits if_splits)

lemma fit_loop_Cons:
  "fit_loop E self Xi y sw F ((t, a) # rest) X h =
     (case fst (pipeline_fit_transform E (step_states F h) t (h ! a) (return_X self t X Xi) y sw) of
        Inl e \<Rightarrow>
          (Inl e, h[a := snd (pipeline_fit_transform E (step_states F h) t (h ! a) (return_X self t X Xi) y sw)],
           [\<lparr>c_method = FitTransform, c_tag = t, c_X = return_X self t X Xi, c_out = Inl e\<rparr>])
      | Inr X2 \<Rightarrow>
          (fst (fit_loop E self Xi y sw F rest X2
                 (h[a := snd (pipeline_fit_transform E (step_states F h) t (h ! a) (return_X self t X Xi) y sw)])),
           fst (snd (fit_loop E self Xi y sw F rest X2
                 (h[a := snd (pipeline_fit_transform E (step_states F h) t (h ! a) (return_X self t X Xi) y sw)]))),
           \<lparr>c_method = FitTransform, c_tag = t, c_X = return_X self t X Xi, c_out = Inr X2\<rparr> #
           snd (snd (fit_loop E self Xi y sw F rest X2
                 (h[a := snd (pipeline_fit_transform E (step_states F h) t (h ! a) (return_X self t X Xi) y sw)])))))"
  by (simp add: Let_def case_prod_beta split: sum.splits)

lemma transform_loop_Cons:
  "transform_loop E self Xi F ((t, a) # rest) X h =
     (case fst (pipeline_transform E (step_states F h) t (h ! a) (return_X self t X Xi)) of
        Inl e \<Rightarrow>
          (Inl e, h[a := snd (pipeline_transform E (step_states F h) t (h ! a) (return_X self t X Xi))],
           [\<lparr>c_method = Transform, c_tag = t, c_X = return_X self t X Xi, c_out = Inl e\<rparr>])
      | Inr X2 \<Rightarrow>
          (fst (transform_loop E self Xi F rest X2
                 (h[a := snd (pipeline_transform E (step_states F h) t (h ! a) (return_X self t X Xi))])),
           fst (snd (transform_loop E self Xi F rest X2
                 (h[a := snd (pipeline_transform E (step_states F h) t (h ! a) (return_X self t X Xi))]))),
           \<lparr>c_method = Transform, c_tag = t, c_X = return_X self t X Xi, c_out = Inr X2\<rparr> #
           snd (snd (transform_loop E self Xi F rest X2
                 (h[a := snd (pipeline_transform E (step_states F h) t (h ! a) (return_X self t X Xi))])))))"
  by (simp add: Let_def case_prod_beta split: sum.splits)

lemma last_out_Cons:
  "c_out c = Inr X2 \<Longrightarrow> last_out X (c # cs) = last_out X2 cs"
  by (simp add: last_out_def)

lemma fit_loop_threaded:
  "threaded self Xi X (snd (snd (fit_loop E self Xi y sw F sts X h))) \<and>
   last_out X (snd (snd (fit_loop E self Xi y sw F sts X h))) = fst (fit_loop E self Xi y sw F sts X h)"
proof (induction sts arbitrary: X h)
  case Nil
  show ?case by (simp add: last_out_def)
next
  case (Cons p sts)
  obtain t a where p: "p = (t, a)" by (cases p)
  let ?q = "pipeline_fit_transform E (step_states F h) t (h ! a) (return_X self t X Xi) y sw"
  show ?case
  proof (cases "fst ?q")
    case (Inl e)
    then show ?thesis unfolding p fit_loop_Cons by (simp add: last_out_def)
  next
    case (Inr X2)
    let ?rec = "fit_loop E self Xi y sw F sts X2 (h[a := snd ?q])"
    from Cons.IH [of X2 "h[a := snd ?q]"]
    have th: "threaded self Xi X2 (snd (snd ?rec))"
      and lo: "last_out X2 (snd (snd ?rec)) = fst ?rec" by auto
    show ?thesis unfolding p fit_loop_Cons using Inr th lo by (simp add: last_out_Cons)
  qed
qed

lemma transform_loop_threaded:
  "threaded self Xi X (snd (snd (transform_loop E self Xi F sts X h))) \<and>
   last_out X (snd (snd (transform_loop E self Xi F sts X h))) = fst (transform_loop E self Xi F sts X h)"
proof (induction sts arbitrary: X h)
  case Nil
  show ?case by (simp add: last_out_def)
next
  case (Cons p sts)
  obtain t a where p: "p = (t, a)" by (cases p)
  let ?q = "pipeline_transform E (step_states F h) t (h ! a) (return_X self t X Xi)"
  show ?case
  proof (cases "fst ?q")
    case (Inl e)
    then show ?thesis unfolding p transform_loop_Cons by (simp add: last_out_def)
  next
    case (Inr X2)
    let ?rec = "transform_loop E self Xi F sts X2 (h[a := snd ?q])"
    from Cons.IH [of X2 "h[a := snd ?q]"]
    have th: "threaded self Xi X2 (snd (snd ?rec))"
      and lo: "last_out X2 (snd (snd ?rec)) = fst ?rec" by auto
    show ?thesis unfolding p transform_loop_Cons using Inr th lo by (simp add: last_out_Cons)
  qed
qed

lemma fit_loop_shape:
  "map c_tag (snd (snd (fit_loop E self Xi y sw F sts X h))) =
     take (length (snd (snd (fit_loop E self Xi y sw F sts X h)))) (map fst sts) \<and>
   map c_method (snd (snd (fit_loop E self Xi y sw F sts X h))) =
     replicate (length (snd (snd (fit_loop E self Xi y sw F sts X h)))) FitTransform \<and>
   length (snd (snd (fit_loop E self Xi y sw F sts X h))) \<le> length sts \<and>
   (\<forall>v. fst (fit_loop E self Xi y sw F sts X h) = Inr v \<longrightarrow>
        length (snd (snd (fit_loop E self Xi y sw F sts X h))) = length sts)"
proof (induction sts arbitrary: X h)
  case Nil
  show ?case by simp
next
  case (Cons p sts)
  obtain t a where p: "p = (t, a)" by (cases p)
  show ?case
    unfolding p fit_loop_Cons using Cons.IH
    by (auto split: sum.splits)
qed

lemma transform_loop_shape:
  "map c_tag (snd (snd (transform_loop E self Xi F sts X h))) =
     take (length (snd (snd (transform_loop E self Xi F sts X h)))) (map fst sts) \<and>
   map c_method (snd (snd (transform_loop E self Xi F sts X h))) =
     replicate (length (snd (snd (transform_loop E self Xi F sts X h)))) Transform \<and>
   length (snd (snd (transform_loop E self Xi F sts X h))) \<le> length sts \<and>
   (\<forall>v. fst (transform_loop E self Xi F sts X h) = Inr v \<longrightarrow>
        length (snd (snd (transform_loop E self Xi F sts X h))) = length sts)"
proof (induction sts arbitrary: X h)
  case Nil
  show ?case by simp
next
  case (Cons p sts)
  obtain t a where p: "p = (t, a)" by (cases p)
  show ?case
    unfolding p transform_loop_Cons using Cons.IH
    by (auto split: sum.splits)
qed


lemma threaded_step:
  "threaded self Xi X cs \<Longrightarrow> Suc i < length cs \<Longrightarrow>
   \<exists>X'. c_out (cs ! i) = Inr X' \<and> c_X (cs ! Suc i) = return_X self (c_tag (cs ! Suc i)) X' Xi"
proof (induction cs arbitrary: X i)
  case Nil
  then show ?case by simp
next
  case (Cons c cs)
  then obtain X' where out: "c_out c = Inr X'" and th: "threaded self Xi X' cs"
    by (cases "c_out c") auto
  show ?case
  proof (cases i)
    case 0
    with Cons.prems out th show ?thesis by (cases cs) auto
  next
    case (Suc j)
    with Cons.prems Cons.IH [OF th, of j] show ?thesis by simp
  qed
qed

lemma threaded_first:
  "threaded self Xi X cs \<Longrightarrow> cs \<noteq> [] \<Longrightarrow> c_X (cs ! 0) = return_X self (c_tag (cs ! 0)) X Xi"
  by (cases cs) auto

lemma fit_cases [consumes 0, case_names type_error copy_error loop_error no_steps fit_error no_rules fitted]:
  fixes E :: "('st, 'd, 'r) collaborators"
  assumes
    "\<And>n. py_type_of X \<notin> {PandasDataFrame, Dictionary} \<or> py_type_of y \<notin> {PandasSeries, Dictionary} \<or>
          sw \<noteq> PyNone \<and> py_type_of sw \<notin> {PandasSeries, Dictionary} \<Longrightarrow>
       fit E self h X y sw = \<lparr>result = Inl (TypeError n), self_after = self, heap_after = h, trace = []\<rparr> \<Longrightarrow> P"
    "\<And>e. copy_X_if_use_init_data E self X = Inl e \<Longrightarrow>
       fit E self h X y sw = \<lparr>result = Inl e, self_after = self, heap_after = h, trace = []\<rparr> \<Longrightarrow>
       py_type_of X \<in> {PandasDataFrame, Dictionary} \<and> py_type_of y \<in> {PandasSeries, Dictionary} \<and>
          (sw = PyNone \<or> py_type_of sw \<in> {PandasSeries, Dictionary}) \<Longrightarrow> P"
    "\<And>Xi F h0 e h1 cs. copy_X_if_use_init_data E self X = Inr Xi \<Longrightarrow>
       deepcopy (steps self) h = (F, h0) \<Longrightarrow>
       fit_loop E (self\<lparr>steps_fitted := Some F\<rparr>) Xi y sw F (butlast F) X h0 = (Inl e, h1, cs) \<Longrightarrow>
       fit E self h X y sw =
         \<lparr>result = Inl e, self_after = self\<lparr>steps_fitted := Some F\<rparr>, heap_after = h1, trace = cs\<rparr> \<Longrightarrow>
       py_type_of X \<in> {PandasDataFrame, Dictionary} \<and> py_type_of y \<in> {PandasSeries, Dictionary} \<and>
          (sw = PyNone \<or> py_type_of sw \<in> {PandasSeries, Dictionary}) \<Longrightarrow> P"
    "\<And>Xi h0. copy_X_if_use_init_data E self X = Inr Xi \<Longrightarrow>
       deepcopy (steps self) h = ([], h0) \<Longrightarrow>
       fit E self h X y sw =
         \<lparr>result = Inl IndexError, self_after = self\<lparr>steps_fitted := Some []\<rparr>, heap_after = h0, trace = []\<rparr> \<Longrightarrow>
       py_type_of X \<in> {PandasDataFrame, Dictionary} \<and> py_type_of y \<in> {PandasSeries, Dictionary} \<and>
          (sw = PyNone \<or> py_type_of sw \<in> {PandasSeries, Dictionary}) \<Longrightarrow> P"
    "\<And>Xi F h0 X1 h1 cs e st. copy_X_if_use_init_data E self X = Inr Xi \<Longrightarrow>
       deepcopy (steps self) h = (F, h0) \<Longrightarrow> F \<noteq> [] \<Longrightarrow>
       fit_loop E (self\<lparr>steps_fitted := Some F\<rparr>) Xi y sw F (butlast F) X h0 = (Inr X1, h1, cs) \<Longrightarrow>
       pipeline_fit E (step_states F h1) (fst (last F)) (h1 ! snd (last F))
         (return_X self (fst (last F)) X1 Xi) y sw = (Inl e, st) \<Longrightarrow>
       fit E self h X y sw =
         \<lparr>result = Inl e, self_after = self\<lparr>steps_fitted := Some F\<rparr>,
          heap_after = h1[snd (last F) := st],
          trace = cs @ [\<lparr>c_method = Fit, c_tag = fst (last F),
                         c_X = return_X self (fst (last F)) X1 Xi, c_out = Inl e\<rparr>]\<rparr> \<Longrightarrow>
       py_type_of X \<in> {PandasDataFrame, Dictionary} \<and> py_type_of y \<in> {PandasSeries, Dictionary} \<and>
          (sw = PyNone \<or> py_type_of sw \<in> {PandasSeries, Dictionary}) \<Longrightarrow> P"
    "\<And>Xi F h0 X1 h1 cs v st. copy_X_if_use_init_data E self X = Inr Xi \<Longrightarrow>
       deepcopy (steps self) h = (F, h0) \<Longrightarrow> F \<noteq> [] \<Longrightarrow>
       fit_loop E (self\<lparr>steps_fitted := Some F\<rparr>) Xi y sw F (butlast F) X h0 = (Inr X1, h1, cs) \<Longrightarrow>
       pipeline_fit E (step_states F h1) (fst (last F)) (h1 ! snd (last F))
         (return_X self (fst (last F)) X1 Xi) y sw = (Inr v, st) \<Longrightarrow>
       step_rules E (h1[snd (last F) := st] ! snd (last F)) = None \<Longrightarrow>
       fit E self h X y sw =
         \<lparr>result = Inl (AttributeError ''rules''), self_after = self\<lparr>steps_fitted := Some F\<rparr>,
          heap_after = h1[snd (last F) := st],
          trace = cs @ [\<lparr>c_method = Fit, c_tag = fst (last F),
                         c_X = return_X self (fst (last F)) X1 Xi, c_out = Inr v\<rparr>]\<rparr> \<Longrightarrow>
       py_type_of X \<in> {PandasDataFrame, Dictionary} \<and> py_type_of y \<in> {PandasSeries, Dictionary} \<and>
          (sw = PyNone \<or> py_type_of sw \<in> {PandasSeries, Dictionary}) \<Longrightarrow> P"
    "\<And>Xi F h0 X1 h1 cs v st rs. copy_X_if_use_init_data E self X = Inr Xi \<Longrightarrow>
       deepcopy (steps self) h = (F, h0) \<Longrightarrow> F \<noteq> [] \<Longrightarrow>
       fit_loop E (self\<lparr>steps_fitted := Some F\<rparr>) Xi y sw F (butlast F) X h0 = (Inr X1, h1, cs) \<Longrightarrow>
       pipeline_fit E (step_states F h1) (fst (last F)) (h1 ! snd (last F))
         (return_X self (fst (last F)) X1 Xi) y sw = (Inr v, st) \<Longrightarrow>
       step_rules E (h1[snd (last F) := st] ! snd (last F)) = Some rs \<Longrightarrow>
       fit E self h X y sw =
         \<lparr>result = Inr PyNone, self_after = self\<lparr>steps_fitted := Some F, rules := Some rs\<rparr>,
          heap_after = h1[snd (last F) := st],
          trace = cs @ [\<lparr>c_method = Fit, c_tag = fst (last F),
                         c_X = return_X self (fst (last F)) X1 Xi, c_out = Inr v\<rparr>]\<rparr> \<Longrightarrow>
       py_type_of X \<in> {PandasDataFrame, Dictionary} \<and> py_type_of y \<in> {PandasSeries, Dictionary} \<and>
          (sw = PyNone \<or> py_type_of sw \<in> {PandasSeries, Dictionary}) \<Longrightarrow> P"
  shows P
proof (cases "check_allowed_types X ''X'' [PandasDataFrame, Dictionary]")
  case (Inl e)
  then obtain n where "e = TypeError n" and bad: "py_type_of X \<notin> {PandasDataFrame, Dictionary}"
    by (auto simp: check_allowed_types_def split: if_splits)
  with Inl have "fit E self h X y sw = \<lparr>result = Inl (TypeError n), self_after = self, heap_after = h, trace = []\<rparr>"
    by (simp add: fit_def)
  with bad show ?thesis by (auto intro: assms(1))
next
  case cX: (Inr u)
  show ?thesis
  proof (cases "check_allowed_types y ''y'' [PandasSeries, Dictionary]")
    case (Inl e)
    then obtain n where "e = TypeError n" and bad: "py_type_of y \<notin> {PandasSeries, Dictionary}"
      by (auto simp: check_allowed_types_def split: if_splits)
    with Inl cX have "fit E self h X y sw = \<lparr>result = Inl (TypeError n), self_after = self, heap_after = h, trace = []\<rparr>"
      by (simp add: fit_def)
    with bad show ?thesis by (auto intro: assms(1))
  next
    case cy: (Inr u')
    show ?thesis
    proof (cases "if sw \<noteq> PyNone then check_allowed_types sw ''sample_weight'' [PandasSeries, Dictionary] else Inr ()")
      case (Inl e)
      then obtain n where "e = TypeError n"
        and bad: "sw \<noteq> PyNone \<and> py_type_of sw \<notin> {PandasSeries, Dictionary}"
        by (auto simp: check_allowed_types_def split: if_splits)
      with Inl cX cy have "fit E self h X y sw = \<lparr>result = Inl (TypeError n), self_after = self, heap_after = h, trace = []\<rparr>"
        by (simp add: fit_def)
      with bad show ?thesis by (auto intro: assms(1))
    next
      case cw: (Inr u'')
      from cX cy cw have ok: "py_type_of X \<in> {PandasDataFrame, Dictionary} \<and>
          py_type_of y \<in> {PandasSeries, Dictionary} \<and>
          (sw = PyNone \<or> py_type_of sw \<in> {PandasSeries, Dictionary})"
        by (auto simp: check_allowed_types_def split: if_splits)
      show ?thesis
      proof (cases "copy_X_if_use_init_data E self X")
        case (Inl e)
        with cX cy cw have "fit E self h X y sw = \<lparr>result = Inl e, self_after = self, heap_after = h, trace = []\<rparr>"
          by (simp add: fit_def)
        with Inl ok show ?thesis by (auto intro: assms(2))
      next
        case cp: (Inr Xi)
        obtain F h0 where dc: "deepcopy (steps self) h = (F, h0)" by (cases "deepcopy (steps self) h")
        obtain r h1 cs where lp: "fit_loop E (self\<lparr>steps_fitted := Some F\<rparr>) Xi y sw F (butlast F) X h0 = (r, h1, cs)"
          by (cases "fit_loop E (self\<lparr>steps_fitted := Some F\<rparr>) Xi y sw F (butlast F) X h0")
        show ?thesis
        proof (cases r)
          case (Inl e)
          with lp cX cy cw cp dc have "fit E self h X y sw =
              \<lparr>result = Inl e, self_after = self\<lparr>steps_fitted := Some F\<rparr>, heap_after = h1, trace = cs\<rparr>"
            by (simp add: fit_def)
          with cp dc lp Inl ok show ?thesis by (auto intro: assms(3))
        next
          case rr: (Inr X1)
          show ?thesis
          proof (cases "F = []")
            case True
            with lp cX cy cw cp dc rr have "fit E self h X y sw =
              \<lparr>result = Inl IndexError, self_after = self\<lparr>steps_fitted := Some []\<rparr>, heap_after = h0, trace = []\<rparr>"
              by (simp add: fit_def)
            with cp dc True ok show ?thesis by (auto intro: assms(4))
          next
            case False
            obtain r' st where pf: "pipeline_fit E (step_states F h1) (fst (last F)) (h1 ! snd (last F))
                (return_X self (fst (last F)) X1 Xi) y sw = (r', st)"
              by (cases "pipeline_fit E (step_states F h1) (fst (last F)) (h1 ! snd (last F))
                (return_X self (fst (last F)) X1 Xi) y sw")
            have rx: "return_X (self\<lparr>steps_fitted := Some F\<rparr>) (fst (last F)) X1 Xi = return_X self (fst (last F)) X1 Xi"
              by (simp add: return_X_def)
            show ?thesis
            proof (cases r')
              case (Inl e)
              with lp cX cy cw cp dc rr pf rx False have "fit E self h X y sw =
                 \<lparr>result = Inl e, self_after = self\<lparr>steps_fitted := Some F\<rparr>,
                  heap_after = h1[snd (last F) := st],
                  trace = cs @ [\<lparr>c_method = Fit, c_tag = fst (last F),
                         c_X = return_X self (fst (last F)) X1 Xi, c_out = Inl e\<rparr>]\<rparr>"
                by (simp add: fit_def Let_def)
              with cp dc False lp rr pf Inl ok show ?thesis by (auto intro: assms(5))
            next
              case (Inr v)
              show ?thesis
              proof (cases "step_rules E (h1[snd (last F) := st] ! snd (last F))")
                case None
                with Inr lp cX cy cw cp dc rr pf rx False have "fit E self h X y sw =
                 \<lparr>result = Inl (AttributeError ''rules''), self_after = self\<lparr>steps_fitted := Some F\<rparr>,
                  heap_after = h1[snd (last F) := st],
                  trace = cs @ [\<lparr>c_method = Fit, c_tag = fst (last F),
                         c_X = return_X self (fst (last F)) X1 Xi, c_out = Inr v\<rparr>]\<rparr>"
                  by (simp add: fit_def Let_def)
                with cp dc False lp rr pf Inr None ok show ?thesis by (auto intro: assms(6))
              next
                case (Some rs)
                with Inr lp cX cy cw cp dc rr pf rx False have "fit E self h X y sw =
                 \<lparr>result = Inr PyNone, self_after = self\<lparr>steps_fitted := Some F, rules := Some rs\<rparr>,
                  heap_after = h1[snd (last F) := st],
                  trace = cs @ [\<lparr>c_method = Fit, c_tag = fst (last F),
                         c_X = return_X self (fst (last F)) X1 Xi, c_out = Inr v\<rparr>]\<rparr>"
                  by (simp add: fit_def Let_def)
                with cp dc False lp rr pf Inr Some ok show ?thesis by (auto intro: assms(7))
              qed
            qed
          qed
        qed
      qed
    qed
  qed
qed

lemma transform_cases [consumes 0, case_names type_error copy_error unfitted run]:
  fixes E :: "('st, 'd, 'r) collaborators"
  assumes
    "\<And>n. py_type_of X \<notin> {PandasDataFrame, Dictionary} \<Longrightarrow>
       transform E self h X = \<lparr>result = Inl (TypeError n), self_after = self, heap_after = h, trace = []\<rparr> \<Longrightarrow> P"
    "\<And>e. copy_X_if_use_init_data E self X = Inl e \<Longrightarrow>
       transform E self h X = \<lparr>result = Inl e, self_after = self, heap_after = h, trace = []\<rparr> \<Longrightarrow> P"
    "\<And>Xi. copy_X_if_use_init_data E self X = Inr Xi \<Longrightarrow> steps_fitted self = None \<Longrightarrow>
       transform E self h X =
         \<lparr>result = Inl (UnsetAttributeError ''steps_''), self_after = self, heap_after = h, trace = []\<rparr> \<Longrightarrow> P"
    "\<And>Xi F r h1 cs. copy_X_if_use_init_data E self X = Inr Xi \<Longrightarrow> steps_fitted self = Some F \<Longrightarrow>
       transform_loop E self Xi F F X h = (r, h1, cs) \<Longrightarrow>
       transform E self h X = \<lparr>result = r, self_after = self, heap_after = h1, trace = cs\<rparr> \<Longrightarrow> P"
  shows P
proof (cases "check_allowed_types X ''X'' [PandasDataFrame, Dictionary]")
  case (Inl e)
  then obtain n where "e = TypeError n" and bad: "py_type_of X \<notin> {PandasDataFrame, Dictionary}"
    by (auto simp: check_allowed_types_def split: if_splits)
  with Inl have "transform E self h X = \<lparr>result = Inl (TypeError n), self_after = self, heap_after = h, trace = []\<rparr>"
    by (simp add: transform_def)
  with bad show ?thesis by (auto intro: assms(1))
next
  case cX: (Inr u)
  show ?thesis
  proof (cases "copy_X_if_use_init_data E self X")
    case (Inl e)
    with cX have "transform E self h X = \<lparr>result = Inl e, self_after = self, heap_after = h, trace = []\<rparr>"
      by (simp add: transform_def)
    with Inl show ?thesis by (rule assms(2))
  next
    case cp: (Inr Xi)
    show ?thesis
    proof (cases "steps_fitted self")
      case None
      with cX cp have "transform E self h X =
         \<lparr>result = Inl (UnsetAttributeError ''steps_''), self_after = self, heap_after = h, trace = []\<rparr>"
        by (simp add: transform_def)
      with cp None show ?thesis by (auto intro: assms(3))
    next
      case (Some F)
      obtain r h1 cs where lp: "transform_loop E self Xi F F X h = (r, h1, cs)"
        by (cases "transform_loop E self Xi F F X h")
      with cX cp Some have "transform E self h X = \<lparr>result = r, self_after = self, heap_after = h1, trace = cs\<rparr>"
        by (simp add: transform_def)
      with cp Some lp show ?thesis by (auto intro: assms(4))
    qed
  qed
qed

lemma predict_cases [consumes 0, case_names type_error copy_error unfitted loop_error no_steps final]:
  fixes E :: "('st, 'd, 'r) collaborators"
  assumes
    "\<And>n. py_type_of X \<notin> {PandasDataFrame, Dictionary} \<Longrightarrow>
       predict E self h X = \<lparr>result = Inl (TypeError n), self_after = self, heap_after = h, trace = []\<rparr> \<Longrightarrow> P"
    "\<And>e. copy_X_if_use_init_data E self X = Inl e \<Longrightarrow>
       predict E self h X = \<lparr>result = Inl e, self_after = self, heap_after = h, trace = []\<rparr> \<Longrightarrow> P"
    "\<And>Xi. copy_X_if_use_init_data E self X = Inr Xi \<Longrightarrow> steps_fitted self = None \<Longrightarrow>
       predict E self h X =
         \<lparr>result = Inl (UnsetAttributeError ''steps_''), self_after = self, heap_after = h, trace = []\<rparr> \<Longrightarrow> P"
    "\<And>Xi F e h1 cs. copy_X_if_use_init_data E self X = Inr Xi \<Longrightarrow> steps_fitted self = Some F \<Longrightarrow>
       transform_loop E self Xi F (butlast F) X h = (Inl e, h1, cs) \<Longrightarrow>
       predict E self h X = \<lparr>result = Inl e, self_after = self, heap_after = h1, trace = cs\<rparr> \<Longrightarrow> P"
    "\<And>Xi. copy_X_if_use_init_data E self X = Inr Xi \<Longrightarrow> steps_fitted self = Some [] \<Longrightarrow>
       predict E self h X = \<lparr>result = Inl IndexError, self_after = self, heap_after = h, trace = []\<rparr> \<Longrightarrow> P"
    "\<And>Xi F X1 h1 cs r' st. copy_X_if_use_init_data E self X = Inr Xi \<Longrightarrow> steps_fitted self = Some F \<Longrightarrow>
       F \<noteq> [] \<Longrightarrow>
       transform_loop E self Xi F (butlast F) X h = (Inr X1, h1, cs) \<Longrightarrow>
       pipeline_predict E (step_states F h1) (h1 ! snd (last F))
         (return_X self (fst (last F)) X1 Xi) = (r', st) \<Longrightarrow>
       predict E self h X =
         \<lparr>result = r', self_after = self, heap_after = h1[snd (last F) := st],
          trace = cs @ [\<lparr>c_method = Predict, c_tag = fst (last F),
                         c_X = return_X self (fst (last F)) X1 Xi, c_out = r'\<rparr>]\<rparr> \<Longrightarrow> P"
  shows P
proof (cases "check_allowed_types X ''X'' [PandasDataFrame, Dictionary]")
  case (Inl e)
  then obtain n where "e = TypeError n" and bad: "py_type_of X \<notin> {PandasDataFrame, Dictionary}"
    by (auto simp: check_allowed_types_def split: if_splits)
  with Inl have "predict E self h X = \<lparr>result = Inl (TypeError n), self_after = self, heap_after = h, trace = []\<rparr>"
    by (simp add: predict_def)
  with bad show ?thesis by (auto intro: assms(1))
next
  case cX: (Inr u)
  show ?thesis
  proof (cases "copy_X_if_use_init_data E self X")
    case (Inl e)
    with cX have "predict E self h X = \<lparr>result = Inl e, self_after = self, heap_after = h, trace = []\<rparr>"
      by (simp add: predict_def)
    with Inl show ?thesis by (rule assms(2))
  next
    case cp: (Inr Xi)
    show ?thesis
    proof (cases "steps_fitted self")
      case None
      with cX cp have "predict E self h X =
         \<lparr>result = Inl (UnsetAttributeError ''steps_''), self_after = self, heap_after = h, trace = []\<rparr>"
        by (simp add: predict_def)
      with cp None show ?thesis by (auto intro: assms(3))
    next
      case (Some F)
      obtain r h1 cs where lp: "transform_loop E self Xi F (butlast F) X h = (r, h1, cs)"
        by (cases "transform_loop E self Xi F (butlast F) X h")
      show ?thesis
      proof (cases r)
        case (Inl e)
        with lp cX cp Some have "predict E self h X = \<lparr>result = Inl e, self_after = self, heap_after = h1, trace = cs\<rparr>"
          by (simp add: predict_def)
        with cp Some lp Inl show ?thesis by (auto intro: assms(4))
      next
        case rr: (Inr X1)
        show ?thesis
        proof (cases "F = []")
          case True
          with lp cX cp Some rr have "predict E self h X = \<lparr>result = Inl IndexError, self_after = self, heap_after = h, trace = []\<rparr>"
            by (simp add: predict_def)
          with cp Some True show ?thesis by (auto intro: assms(5))
        next
          case False
          obtain r' st where pf: "pipeline_predict E (step_states F h1) (h1 ! snd (last F))
              (return_X self (fst (last F)) X1 Xi) = (r', st)"
            by (cases "pipeline_predict E (step_states F h1) (h1 ! snd (last F))
              (return_X self (fst (last F)) X1 Xi)")
          with lp cX cp Some rr False have "predict E self h X =
             \<lparr>result = r', self_after = self, heap_after = h1[snd (last F) := st],
              trace = cs @ [\<lparr>c_method = Predict, c_tag = fst (last F),
                         c_X = return_X self (fst (last F)) X1 Xi, c_out = r'\<rparr>]\<rparr>"
            by (simp add: predict_def Let_def)
          with cp Some False lp rr pf show ?thesis by (auto intro: assms(6))
        qed
      qed
    qed
  qed
qed

lemma loop_facts:
  assumes "fit_loop E self Xi y sw F sts X h = (r, h1, cs)"
  shows "threaded self Xi X cs" "last_out X cs = r"
    "map c_tag cs = take (length cs) (map fst sts)"
    "map c_method cs = replicate (length cs) FitTransform"
    "length cs \<le> length sts" "r = Inr v \<Longrightarrow> length cs = length sts"
  using fit_loop_threaded [of self Xi X E y sw F sts h] fit_loop_shape [of E self Xi y sw F sts X h] assms
  by simp_all

lemma tloop_facts:
  assumes "transform_loop E self Xi F sts X h = (r, h1, cs)"
  shows "threaded self Xi X cs" "last_out X cs = r"
    "map c_tag cs = take (length cs) (map fst sts)"
    "map c_method cs = replicate (length cs) Transform"
    "length cs \<le> length sts" "r = Inr v \<Longrightarrow> length cs = length sts"
  using transform_loop_threaded [of self Xi X E F sts h] transform_loop_shape [of E self Xi F sts X h] assms
  by simp_all

lemma fit_threaded:
  assumes "copy_X_if_use_init_data E self X = Inr Xi"
  shows "threaded self Xi X (trace (fit E self h X y sw))"
proof (cases rule: fit_cases [where E=E and self=self and h=h and X=X and y=y and sw=sw])
  case (loop_error Xi' F h0 e h1 cs)
  with assms loop_facts(1) [OF loop_error(3)] show ?thesis
    by (simp add: threaded_cong [of "self\<lparr>steps_fitted := Some F\<rparr>" self])
next
  case (fit_error Xi' F h0 X1 h1 cs e st)
  from loop_facts(1,2) [OF fit_error(4)] have "threaded self Xi' X cs" "last_out X cs = Inr X1"
    by (simp_all add: threaded_cong [of "self\<lparr>steps_fitted := Some F\<rparr>" self])
  with assms fit_error show ?thesis by (auto intro!: threaded_snoc)
next
  case (no_rules Xi' F h0 X1 h1 cs v st)
  from loop_facts(1,2) [OF no_rules(4)] have "threaded self Xi' X cs" "last_out X cs = Inr X1"
    by (simp_all add: threaded_cong [of "self\<lparr>steps_fitted := Some F\<rparr>" self])
  with assms no_rules show ?thesis by (auto intro!: threaded_snoc)
next
  case (fitted Xi' F h0 X1 h1 cs v st rs)
  from loop_facts(1,2) [OF fitted(4)] have "threaded self Xi' X cs" "last_out X cs = Inr X1"
    by (simp_all add: threaded_cong [of "self\<lparr>steps_fitted := Some F\<rparr>" self])
  with assms fitted show ?thesis by (auto intro!: threaded_snoc)
qed simp_all


lemma predict_threaded:
  assumes "copy_X_if_use_init_data E self X = Inr Xi"
  shows "threaded self Xi X (trace (predict E self h X))"
proof (cases rule: predict_cases [where E=E and self=self and h=h and X=X])
  case (loop_error Xi' F e h1 cs)
  with assms tloop_facts(1) [OF loop_error(3)] show ?thesis by simp
next
  case (final Xi' F X1 h1 cs r' st)
  from tloop_facts(1,2) [OF final(4)] have "threaded self Xi' X cs" "last_out X cs = Inr X1"
    by simp_all
  with assms final show ?thesis by (auto intro!: threaded_snoc)
qed simp_all




lemma py_copy_ok:
  "py_type_of X \<in> {PandasDataFrame, Dictionary} \<Longrightarrow> \<exists>Xi. py_copy E X = Inr Xi"
  by (cases X) simp_all



lemma copy_if_ok:
  "py_type_of X \<in> {PandasDataFrame, Dictionary} \<Longrightarrow>
   \<exists>Xi. copy_X_if_use_init_data E self X = Inr Xi"
  using py_copy_ok [of X E] by (auto simp: copy_X_if_use_init_data_def)

lemma deepcopy_memo_tags:
  "map fst (fst (deepcopy_memo memo xs h)) = map fst xs"
  by (induction memo xs h rule: deepcopy_memo.induct)
     (simp_all add: Let_def case_prod_beta split: option.splits)

lemma deepcopy_tags:
  "deepcopy xs h = (F, h0) \<Longrightarrow> map fst F = map fst xs"
  using deepcopy_memo_tags [of "[]" xs h] by (simp add: deepcopy_def)

lemma take_butlast_le:
  "k \<le> length xs - 1 \<Longrightarrow> take k (butlast xs) = take k xs"
  by (simp add: butlast_conv_take min_def)

lemma take_map_butlast:
  "k \<le> length F - 1 \<Longrightarrow> take k (map f (butlast F)) = take k (map f F)"
  by (simp only: take_map take_butlast_le)

lemma tags_snoc:
  "F \<noteq> [] \<Longrightarrow> length cs = length F - 1 \<Longrightarrow>
   map c_tag cs = take (length cs) (map fst (butlast F)) \<Longrightarrow>
   map c_tag cs @ [fst (last F)] = map fst F"
proof -
  assume ne: "F \<noteq> []" and len: "length cs = length F - 1"
    and tg: "map c_tag cs = take (length cs) (map fst (butlast F))"
  from append_butlast_last_id [OF ne] have "map fst (butlast F @ [last F]) = map fst F" by simp
  then have "map fst (butlast F) @ [fst (last F)] = map fst F" by simp
  moreover from tg len have "map c_tag cs = map fst (butlast F)" by simp
  ultimately show ?thesis by simp
qed

lemma methods_prefix:
  "k \<le> n - 1 \<Longrightarrow> replicate k a = take k (replicate (n - 1) a @ [b])"
  by (simp add: min_def)

lemma loop_error_shape:
  assumes "map c_tag cs = take (length cs) (map fst (butlast F))"
    and "map c_method cs = replicate (length cs) m"
    and "length cs \<le> length (butlast F)"
    and "map fst F = tags"
  shows "map c_tag cs = take (length cs) tags \<and>
         map c_method cs = take (length cs) (replicate (length tags - 1) m @ [m'])"
proof -
  from assms(4) have len: "length tags = length F" by (metis length_map)
  from assms(3) have le: "length cs \<le> length F - 1" by simp
  from assms(1) have "map c_tag cs = take (length cs) (map fst F)"
    by (simp only: take_map_butlast [OF le])
  moreover from le len have "length cs \<le> length tags - 1" by simp
  then have "replicate (length cs) m = take (length cs) (replicate (length tags - 1) m @ [m'])"
    by (rule methods_prefix)
  ultimately show ?thesis using assms(2,4) by simp
qed

lemma final_shape:
  assumes "F \<noteq> []"
    and "map c_tag cs = take (length cs) (map fst (butlast F))"
    and "map c_method cs = replicate (length cs) m"
    and "length cs = length (butlast F)"
    and "map fst F = tags"
    and "c_tag c = fst (last F)" and "c_method c = m'"
  shows "map c_tag (cs @ [c]) = tags \<and>
         map c_method (cs @ [c]) = replicate (length tags - 1) m @ [m'] \<and>
         length (cs @ [c]) = length tags"
proof -
  from assms(5) have len: "length tags = length F" by (metis length_map)
  from assms(4) have lcs: "length cs = length F - 1" by simp
  from tags_snoc [OF assms(1) lcs assms(2)] assms(5)
  have t: "map c_tag cs @ [fst (last F)] = tags" by simp
  from assms(1) have "0 < length F" by simp
  with lcs len have l: "Suc (length cs) = length tags" by linarith
  then have l': "length cs = length tags - 1" by linarith
  from assms(3) have "map c_method cs = replicate (length tags - 1) m" by (simp only: l')
  with t l assms(6,7) show ?thesis by simp
qed

lemma fit_shape:
  "map c_tag (trace (fit E self h X y sw)) =
     take (length (trace (fit E self h X y sw))) (map fst (steps self)) \<and>
   map c_method (trace (fit E self h X y sw)) =
     take (length (trace (fit E self h X y sw)))
       (replicate (length (steps self) - 1) FitTransform @ [Fit]) \<and>
   (\<forall>v. result (fit E self h X y sw) = Inr v \<longrightarrow>
        length (trace (fit E self h X y sw)) = length (steps self))"
proof (cases rule: fit_cases [where E=E and self=self and h=h and X=X and y=y and sw=sw])
  case (loop_error Xi F h0 e h1 cs)
  note lf = loop_facts [OF loop_error(3)]
  from loop_error_shape [OF lf(3) lf(4) lf(5) deepcopy_tags [OF loop_error(2)], of Fit]
  show ?thesis by (simp add: loop_error(4))
next
  case (fit_error Xi F h0 X1 h1 cs e st)
  note lf = loop_facts [OF fit_error(4)]
  let ?c = "\<lparr>c_method = Fit, c_tag = fst (last F),
                         c_X = return_X self (fst (last F)) X1 Xi, c_out = Inl e\<rparr>"
  from final_shape [OF fit_error(3) lf(3) lf(4) lf(6) deepcopy_tags [OF fit_error(2)], of X1 ?c Fit]
  show ?thesis by (simp add: fit_error(6))
next
  case (no_rules Xi F h0 X1 h1 cs v st)
  note lf = loop_facts [OF no_rules(4)]
  let ?c = "\<lparr>c_method = Fit, c_tag = fst (last F),
                         c_X = return_X self (fst (last F)) X1 Xi, c_out = Inr v\<rparr>"
  from final_shape [OF no_rules(3) lf(3) lf(4) lf(6) deepcopy_tags [OF no_rules(2)], of X1 ?c Fit]
  show ?thesis by (simp add: no_rules(7))
next
  case (fitted Xi F h0 X1 h1 cs v st rs)
  note lf = loop_facts [OF fitted(4)]
  let ?c = "\<lparr>c_method = Fit, c_tag = fst (last F),
                         c_X = return_X self (fst (last F)) X1 Xi, c_out = Inr v\<rparr>"
  from final_shape [OF fitted(3) lf(3) lf(4) lf(6) deepcopy_tags [OF fitted(2)], of X1 ?c Fit]
  show ?thesis by (simp add: fitted(7))
qed simp_all


lemma predict_shape:
  assumes "steps_fitted self = Some F"
  shows "map c_tag (trace (predict E self h X)) =
           take (length (trace (predict E self h X))) (map fst F)"
proof (cases rule: predict_cases [where E=E and self=self and h=h and X=X])
  case (loop_error Xi F' e h1 cs)
  note lf = tloop_facts [OF loop_error(3)]
  from loop_error_shape [OF lf(3) lf(4) lf(5) refl, of Predict] assms loop_error(2)
  show ?thesis by (simp add: loop_error(4))
next
  case (final Xi F' X1 h1 cs r' st)
  note lf = tloop_facts [OF final(4)]
  let ?c = "\<lparr>c_method = Predict, c_tag = fst (last F'),
                         c_X = return_X self (fst (last F')) X1 Xi, c_out = r'\<rparr>"
  from final_shape [OF final(3) lf(3) lf(4) lf(6) refl, of X1 ?c Predict] assms final(2)
  show ?thesis by (simp add: final(6))
qed simp_all




lemma transform_self: "self_after (transform E self h X) = self"
  by (cases rule: transform_cases [where E=E and self=self and h=h and X=X]) simp_all

lemma predict_self: "self_after (predict E self h X) = self"
  by (cases rule: predict_cases [where E=E and self=self and h=h and X=X]) simp_all

lemma after_calls_self: "after_calls E s t \<Longrightarrow> fst t = fst s"
  by (induction rule: after_calls.induct) (simp_all add: transform_self predict_self)

lemma fit_attributes:
  "steps (self_after (fit E self h X y sw)) = steps self \<and>
   use_init_data (self_after (fit E self h X y sw)) = use_init_data self"
  by (cases rule: fit_cases [where E=E and self=self and h=h and X=X and y=y and sw=sw]) simp_all

lemma fit_assigns:
  "result (fit E self h X y sw) = Inr v \<Longrightarrow>
   steps_fitted (self_after (fit E self h X y sw)) \<noteq> None \<and>
   rules (self_after (fit E self h X y sw)) \<noteq> None"
  by (cases rule: fit_cases [where E=E and self=self and h=h and X=X and y=y and sw=sw]) simp_all

subsection \<open>Copies of the steps and runs that differ only in addresses\<close>

lemma deepcopy_memo_Some:
  "map_of memo a = Some b \<Longrightarrow>
   deepcopy_memo memo ((t, a) # xs) h =
     ((t, b) # fst (deepcopy_memo memo xs h), snd (deepcopy_memo memo xs h))"
  by (simp add: case_prod_beta)

lemma deepcopy_memo_None:
  "map_of memo a = None \<Longrightarrow>
   deepcopy_memo memo ((t, a) # xs) h =
     ((t, length h) # fst (deepcopy_memo ((a, length h) # memo) xs (h @ [h ! a])),
      snd (deepcopy_memo ((a, length h) # memo) xs (h @ [h ! a])))"
  by (simp add: case_prod_beta Let_def)



lemma deepcopy_memo_fresh:
  assumes "\<forall>b \<in> snd ` set memo. length h0 \<le> b \<and> b < length (h0 @ cs)"
  shows "(\<forall>b \<in> snd ` set (fst (deepcopy_memo memo xs (h0 @ cs))).
            length h0 \<le> b \<and> b < length (snd (deepcopy_memo memo xs (h0 @ cs)))) \<and>
         (\<exists>cs'. snd (deepcopy_memo memo xs (h0 @ cs)) = h0 @ cs @ cs')"
  using assms
proof (induction xs arbitrary: memo cs)
  case Nil
  show ?case by simp
next
  case (Cons p xs)
  obtain t a where p: "p = (t, a)" by (cases p)
  show ?case
  proof (cases "map_of memo a")
    case (Some b)
    then have "b \<in> snd ` set memo" by (force dest: map_of_SomeD)
    with Cons.prems have b: "length h0 \<le> b" "b < length (h0 @ cs)" by auto
    from Cons.IH [OF Cons.prems] obtain cs' where
      ih: "\<forall>b \<in> snd ` set (fst (deepcopy_memo memo xs (h0 @ cs))).
            length h0 \<le> b \<and> b < length (snd (deepcopy_memo memo xs (h0 @ cs)))"
      and g: "snd (deepcopy_memo memo xs (h0 @ cs)) = h0 @ cs @ cs'" by blast
    from b g have "b < length (snd (deepcopy_memo memo xs (h0 @ cs)))" by simp
    with ih g b show ?thesis unfolding p deepcopy_memo_Some [OF Some] by simp
  next
    case None
    let ?cs = "cs @ [(h0 @ cs) ! a]"
    let ?memo = "(a, length (h0 @ cs)) # memo"
    have h1: "(h0 @ cs) @ [(h0 @ cs) ! a] = h0 @ ?cs" by simp
    from Cons.prems have "\<forall>b \<in> snd ` set ?memo. length h0 \<le> b \<and> b < length (h0 @ ?cs)" by auto
    from Cons.IH [OF this] obtain cs' where
      ih: "\<forall>b \<in> snd ` set (fst (deepcopy_memo ?memo xs (h0 @ ?cs))).
            length h0 \<le> b \<and> b < length (snd (deepcopy_memo ?memo xs (h0 @ ?cs)))"
      and g: "snd (deepcopy_memo ?memo xs (h0 @ ?cs)) = h0 @ ?cs @ cs'" by blast
    from g have "length (h0 @ cs) < length (snd (deepcopy_memo ?memo xs (h0 @ ?cs)))" by simp
    with ih g show ?thesis unfolding p deepcopy_memo_None [OF None] h1 by simp
  qed
qed





lemma fit_loop_heap:
  "length (fst (snd (fit_loop E self Xi y sw F sts X h))) = length h \<and>
   (\<forall>a. a \<notin> snd ` set sts \<longrightarrow> fst (snd (fit_loop E self Xi y sw F sts X h)) ! a = h ! a)"
proof (induction sts arbitrary: X h)
  case Nil
  show ?case by simp
next
  case (Cons p sts)
  obtain t a where p: "p = (t, a)" by (cases p)
  let ?q = "pipeline_fit_transform E (step_states F h) t (h ! a) (return_X self t X Xi) y sw"
  show ?case
  proof (cases "fst ?q")
    case (Inl e)
    then show ?thesis unfolding p by (simp add: fit_loop_Cons del: fit_loop.simps)
  next
    case (Inr X2)
    from Cons.IH [of X2 "h[a := snd ?q]"] Inr show ?thesis
      unfolding p by (simp add: fit_loop_Cons del: fit_loop.simps)
  qed
qed

lemma deepcopy_fresh:
  assumes "deepcopy xs h = (F, h1)"
  shows "(\<forall>b \<in> snd ` set F. length h \<le> b \<and> b < length h1) \<and> (\<exists>cs. h1 = h @ cs)"
  using deepcopy_memo_fresh [of "[]" h "[]" xs] assms by (simp add: deepcopy_def)




lemma fit_fresh_steps:
  "steps_fitted (self_after (fit E self h X y sw)) = steps_fitted self \<and>
     heap_after (fit E self h X y sw) = h \<or>
   (\<exists>F. steps_fitted (self_after (fit E self h X y sw)) = Some F \<and>
        map fst F = map fst (steps self) \<and>
        (\<forall>a \<in> snd ` set F. length h \<le> a \<and> a < length (heap_after (fit E self h X y sw))))"
proof -
  have run: "map fst F = map fst (steps self) \<and>
             (\<forall>a \<in> snd ` set F. length h \<le> a \<and> a < length h1)"
    if dc: "deepcopy (steps self) h = (F, h0)"
      and lp: "fit_loop E s Xi y sw F (butlast F) X h0 = (r, h1, cs)" for F h0 s Xi r h1 cs
  proof -
    from fit_loop_heap [of E s Xi y sw F "butlast F" X h0] lp
    have "length h1 = length h0" by simp
    with deepcopy_fresh [OF dc] deepcopy_tags [OF dc] show ?thesis by simp
  qed
  show ?thesis
  proof (cases rule: fit_cases [where E=E and self=self and h=h and X=X and y=y and sw=sw])
    case (loop_error Xi F h0 e h1 cs)
    from run [OF loop_error(2,3)] show ?thesis by (simp add: loop_error(4))
  next
    case (no_steps Xi h0)
    from deepcopy_tags [OF no_steps(2)] show ?thesis by (simp add: no_steps(3))
  next
    case (fit_error Xi F h0 X1 h1 cs e st)
    from run [OF fit_error(2,4)] show ?thesis by (simp add: fit_error(6))
  next
    case (no_rules Xi F h0 X1 h1 cs v st)
    from run [OF no_rules(2,4)] show ?thesis by (simp add: no_rules(7))
  next
    case (fitted Xi F h0 X1 h1 cs v st rs)
    from run [OF fitted(2,4)] show ?thesis by (simp add: fitted(7))
  qed simp_all
qed




subsection \<open>The stores between the calls, and runs before a successful fit\<close>

lemma fit_loop_stores:
  assumes "fit_loop E s Xi y sw F sts X h = (Inr X1, h1, cs)"
  shows "\<exists>hs. length hs = Suc (length sts) \<and> hs ! 0 = h \<and> hs ! length sts = h1 \<and>
           (\<forall>i < length sts.
              c_out (cs ! i) =
                fst (pipeline_fit_transform E (step_states F (hs ! i)) (fst (sts ! i))
                       (hs ! i ! snd (sts ! i)) (c_X (cs ! i)) y sw) \<and>
              hs ! Suc i =
                (hs ! i)[snd (sts ! i) :=
                   snd (pipeline_fit_transform E (step_states F (hs ! i)) (fst (sts ! i))
                          (hs ! i ! snd (sts ! i)) (c_X (cs ! i)) y sw)])"
  using assms
proof (induction sts arbitrary: X h cs)
  case Nil
  then show ?case by (intro exI [of _ "[h]"]) simp
next
  case (Cons p sts)
  obtain t a where p: "p = (t, a)" by (cases p)
  let ?q = "pipeline_fit_transform E (step_states F h) t (h ! a) (return_X s t X Xi) y sw"
  let ?c = "\<lambda>r. \<lparr>c_method = FitTransform, c_tag = t, c_X = return_X s t X Xi, c_out = r\<rparr>"
  from Cons.prems obtain X2 where q: "fst ?q = Inr X2"
    unfolding p fit_loop_Cons by (cases "fst ?q") auto
  let ?rec = "fit_loop E s Xi y sw F sts X2 (h[a := snd ?q])"
  from Cons.prems q have rec: "?rec = (Inr X1, h1, tl cs)" and cs: "cs = ?c (Inr X2) # tl cs"
    unfolding p fit_loop_Cons by (auto simp: prod_eq_iff)
  from Cons.IH [OF rec] obtain hs where hs: "length hs = Suc (length sts)" "hs ! 0 = h[a := snd ?q]"
    "hs ! length sts = h1"
    and st: "\<forall>i < length sts.
              c_out (tl cs ! i) =
                fst (pipeline_fit_transform E (step_states F (hs ! i)) (fst (sts ! i))
                       (hs ! i ! snd (sts ! i)) (c_X (tl cs ! i)) y sw) \<and>
              hs ! Suc i =
                (hs ! i)[snd (sts ! i) :=
                   snd (pipeline_fit_transform E (step_states F (hs ! i)) (fst (sts ! i))
                          (hs ! i ! snd (sts ! i)) (c_X (tl cs ! i)) y sw)]" by blast
  have "\<forall>i < length (p # sts).
              c_out (cs ! i) =
                fst (pipeline_fit_transform E (step_states F ((h # hs) ! i)) (fst ((p # sts) ! i))
                       ((h # hs) ! i ! snd ((p # sts) ! i)) (c_X (cs ! i)) y sw) \<and>
              (h # hs) ! Suc i =
                ((h # hs) ! i)[snd ((p # sts) ! i) :=
                   snd (pipeline_fit_transform E (step_states F ((h # hs) ! i)) (fst ((p # sts) ! i))
                          ((h # hs) ! i ! snd ((p # sts) ! i)) (c_X (cs ! i)) y sw)]"
  proof (intro allI impI)
    fix i assume i: "i < length (p # sts)"
    show "c_out (cs ! i) =
                fst (pipeline_fit_transform E (step_states F ((h # hs) ! i)) (fst ((p # sts) ! i))
                       ((h # hs) ! i ! snd ((p # sts) ! i)) (c_X (cs ! i)) y sw) \<and>
              (h # hs) ! Suc i =
                ((h # hs) ! i)[snd ((p # sts) ! i) :=
                   snd (pipeline_fit_transform E (step_states F ((h # hs) ! i)) (fst ((p # sts) ! i))
                          ((h # hs) ! i ! snd ((p # sts) ! i)) (c_X (cs ! i)) y sw)]"
    proof (cases i)
      case 0
      have "cs ! 0 = ?c (Inr X2)" by (subst cs) simp
      with 0 q hs(2) p show ?thesis by simp
    next
      case (Suc j)
      with i have j: "j < length sts" by simp
      have "cs ! Suc j = tl cs ! j" by (subst cs) simp
      with st j Suc show ?thesis by simp
    qed
  qed
  with hs show ?case by (intro exI [of _ "h # hs"]) simp
qed

lemma transform_loop_stores:
  assumes "transform_loop E s Xi F sts X h = (r, h1, cs)"
  shows "\<exists>hs. length hs = Suc (length cs) \<and> hs ! 0 = h \<and> hs ! length cs = h1 \<and>
           (\<forall>i < length cs.
              c_out (cs ! i) =
                fst (pipeline_transform E (step_states F (hs ! i)) (fst (sts ! i))
                       (hs ! i ! snd (sts ! i)) (c_X (cs ! i))) \<and>
              hs ! Suc i =
                (hs ! i)[snd (sts ! i) :=
                   snd (pipeline_transform E (step_states F (hs ! i)) (fst (sts ! i))
                          (hs ! i ! snd (sts ! i)) (c_X (cs ! i)))])"
  using assms
proof (induction sts arbitrary: X h cs)
  case Nil
  then show ?case by (intro exI [of _ "[h]"]) simp
next
  case (Cons p sts)
  obtain t a where p: "p = (t, a)" by (cases p)
  let ?q = "pipeline_transform E (step_states F h) t (h ! a) (return_X s t X Xi)"
  let ?c = "\<lambda>r. \<lparr>c_method = Transform, c_tag = t, c_X = return_X s t X Xi, c_out = r\<rparr>"
  show ?case
  proof (cases "fst ?q")
    case (Inl e)
    with Cons.prems have cs: "cs = [?c (Inl e)]" and h1: "h1 = h[a := snd ?q]"
      unfolding p transform_loop_Cons by auto
    show ?thesis
      by (intro exI [of _ "[h, h1]"]) (simp add: cs h1 p Inl)
  next
    case (Inr X2)
    let ?rec = "transform_loop E s Xi F sts X2 (h[a := snd ?q])"
    define cs' where "cs' = snd (snd ?rec)"
    from Cons.prems Inr have rec: "?rec = (r, h1, cs')" and cs: "cs = ?c (Inr X2) # cs'"
      unfolding p transform_loop_Cons cs'_def by (auto simp: prod_eq_iff)
    from Cons.IH [OF rec] obtain hs where hs: "length hs = Suc (length cs')"
      "hs ! 0 = h[a := snd ?q]" "hs ! length cs' = h1"
      and st: "\<forall>i < length cs'.
              c_out (cs' ! i) =
                fst (pipeline_transform E (step_states F (hs ! i)) (fst (sts ! i))
                       (hs ! i ! snd (sts ! i)) (c_X (cs' ! i))) \<and>
              hs ! Suc i =
                (hs ! i)[snd (sts ! i) :=
                   snd (pipeline_transform E (step_states F (hs ! i)) (fst (sts ! i))
                          (hs ! i ! snd (sts ! i)) (c_X (cs' ! i)))]" by blast
    have "\<forall>i < length cs.
              c_out (cs ! i) =
                fst (pipeline_transform E (step_states F ((h # hs) ! i)) (fst ((p # sts) ! i))
                       ((h # hs) ! i ! snd ((p # sts) ! i)) (c_X (cs ! i))) \<and>
              (h # hs) ! Suc i =
                ((h # hs) ! i)[snd ((p # sts) ! i) :=
                   snd (pipeline_transform E (step_states F ((h # hs) ! i)) (fst ((p # sts) ! i))
                          ((h # hs) ! i ! snd ((p # sts) ! i)) (c_X (cs ! i)))]"
    proof (intro allI impI)
      fix i assume i: "i < length cs"
      show "c_out (cs ! i) =
                fst (pipeline_transform E (step_states F ((h # hs) ! i)) (fst ((p # sts) ! i))
                       ((h # hs) ! i ! snd ((p # sts) ! i)) (c_X (cs ! i))) \<and>
              (h # hs) ! Suc i =
                ((h # hs) ! i)[snd ((p # sts) ! i) :=
                   snd (pipeline_transform E (step_states F ((h # hs) ! i)) (fst ((p # sts) ! i))
                          ((h # hs) ! i ! snd ((p # sts) ! i)) (c_X (cs ! i)))]"
      proof (cases i)
        case 0
        with Inr hs(2) show ?thesis unfolding cs p by simp
      next
        case (Suc j)
        with i have j: "j < length cs'" unfolding cs by simp
        with st Suc show ?thesis unfolding cs by simp
      qed
    qed
    with hs show ?thesis unfolding cs by (intro exI [of _ "h # hs"]) simp
  qed
qed

lemma never_fitted_tags:
  "never_fitted E s \<Longrightarrow> steps_fitted (fst s) = Some F \<Longrightarrow> map fst F = map fst (steps (fst s))"
proof (induction arbitrary: F rule: never_fitted.induct)
  case (nf_unfitted self h)
  then show ?case by simp
next
  case (nf_failed_fit self h X y sw e)
  from fit_fresh_steps [of E self h X y sw] fit_attributes [of E self h X y sw]
    nf_failed_fit.IH nf_failed_fit.prems
  show ?case by auto
next
  case (nf_transform self h X)
  then show ?case by (simp add: transform_self)
next
  case (nf_predict self h X)
  then show ?case by (simp add: predict_self)
qed

lemma unfitted_outcome:
  assumes "steps_fitted self = None"
  shows "(py_type_of X \<in> {PandasDataFrame, Dictionary} \<longrightarrow>
            transform E self h X =
              \<lparr>result = Inl (UnsetAttributeError ''steps_''), self_after = self, heap_after = h,
               trace = []\<rparr> \<and>
            predict E self h X =
              \<lparr>result = Inl (UnsetAttributeError ''steps_''), self_after = self, heap_after = h,
               trace = []\<rparr>)"
proof (cases "py_type_of X \<in> {PandasDataFrame, Dictionary}")
  case True
  from copy_if_ok [OF True, of E self] obtain Xi where "copy_X_if_use_init_data E self X = Inr Xi" ..
  with True assms show ?thesis
    by (auto simp: transform_def predict_def check_allowed_types_def)
next
  case False
  then show ?thesis by simp
qed

lemma wrong_kind_outcome:
  "py_type_of X \<notin> {PandasDataFrame, Dictionary} \<Longrightarrow>
            transform E self h X =
              \<lparr>result = Inl (TypeError ''X''), self_after = self, heap_after = h, trace = []\<rparr> \<and>
            predict E self h X =
              \<lparr>result = Inl (TypeError ''X''), self_after = self, heap_after = h, trace = []\<rparr>"
  by (auto simp: transform_def predict_def check_allowed_types_def)

lemma transform_fitted_run:
  assumes ok: "py_type_of X \<in> {PandasDataFrame, Dictionary}" and sf: "steps_fitted self = Some F"
  shows "(let out = transform E self h X; cs = trace out in
          result out = last_out X cs \<and> self_after out = self \<and>
          map c_tag cs = take (length cs) (map fst F) \<and>
          (\<forall>v. result out = Inr v \<longrightarrow> length cs = length F) \<and>
          (\<exists>Xi hs. copy_X_if_use_init_data E self X = Inr Xi \<and>
             (cs \<noteq> [] \<longrightarrow> c_X (cs ! 0) = return_X self (c_tag (cs ! 0)) X Xi) \<and>
             (\<forall>i. Suc i < length cs \<longrightarrow>
                (\<exists>X'. c_out (cs ! i) = Inr X' \<and>
                      c_X (cs ! Suc i) = return_X self (c_tag (cs ! Suc i)) X' Xi)) \<and>
             length hs = Suc (length cs) \<and> hs ! 0 = h \<and> hs ! length cs = heap_after out \<and>
             (\<forall>i < length cs.
                c_out (cs ! i) =
                  fst (pipeline_transform E (step_states F (hs ! i)) (fst (F ! i))
                         (hs ! i ! snd (F ! i)) (c_X (cs ! i))) \<and>
                hs ! Suc i =
                  (hs ! i)[snd (F ! i) :=
                     snd (pipeline_transform E (step_states F (hs ! i)) (fst (F ! i))
                            (hs ! i ! snd (F ! i)) (c_X (cs ! i)))])))"
proof (cases rule: transform_cases [where E=E and self=self and h=h and X=X])
  case (type_error n)
  with ok show ?thesis by simp
next
  case (copy_error e)
  with copy_if_ok [OF ok, of E self] show ?thesis by simp
next
  case (unfitted Xi)
  with sf show ?thesis by simp
next
  case (run Xi F' r h1 cs)
  with sf have F': "F' = F" by simp
  note lp = run(3) [unfolded F']
  note lf = tloop_facts [OF lp]
  from transform_loop_stores [OF lp] obtain hs where
    hs: "length hs = Suc (length cs)" "hs ! 0 = h" "hs ! length cs = h1"
    and st: "\<forall>i < length cs.
              c_out (cs ! i) =
                fst (pipeline_transform E (step_states F (hs ! i)) (fst (F ! i))
                       (hs ! i ! snd (F ! i)) (c_X (cs ! i))) \<and>
              hs ! Suc i =
                (hs ! i)[snd (F ! i) :=
                   snd (pipeline_transform E (step_states F (hs ! i)) (fst (F ! i))
                          (hs ! i ! snd (F ! i)) (c_X (cs ! i)))]" by blast
  have first: "cs \<noteq> [] \<longrightarrow> c_X (cs ! 0) = return_X self (c_tag (cs ! 0)) X Xi"
    using threaded_first [OF lf(1)] by blast
  have fed: "\<forall>i. Suc i < length cs \<longrightarrow>
                (\<exists>X'. c_out (cs ! i) = Inr X' \<and>
                      c_X (cs ! Suc i) = return_X self (c_tag (cs ! Suc i)) X' Xi)"
    using threaded_step [OF lf(1)] by blast
  have "\<exists>Xi hs. copy_X_if_use_init_data E self X = Inr Xi \<and>
             (cs \<noteq> [] \<longrightarrow> c_X (cs ! 0) = return_X self (c_tag (cs ! 0)) X Xi) \<and>
             (\<forall>i. Suc i < length cs \<longrightarrow>
                (\<exists>X'. c_out (cs ! i) = Inr X' \<and>
                      c_X (cs ! Suc i) = return_X self (c_tag (cs ! Suc i)) X' Xi)) \<and>
             length hs = Suc (length cs) \<and> hs ! 0 = h \<and> hs ! length cs = h1 \<and>
             (\<forall>i < length cs.
                c_out (cs ! i) =
                  fst (pipeline_transform E (step_states F (hs ! i)) (fst (F ! i))
                         (hs ! i ! snd (F ! i)) (c_X (cs ! i))) \<and>
                hs ! Suc i =
                  (hs ! i)[snd (F ! i) :=
                     snd (pipeline_transform E (step_states F (hs ! i)) (fst (F ! i))
                            (hs ! i ! snd (F ! i)) (c_X (cs ! i)))])"
    using run(1) first fed hs st by (intro exI [of _ Xi] exI [of _ hs]) blast
  moreover from lf(6) have "\<forall>v. r = Inr v \<longrightarrow> length cs = length F" by blast
  ultimately show ?thesis using lf(2,3) by (simp add: run(4) Let_def)
qed

lemma predict_fitted_run:
  assumes ok: "py_type_of X \<in> {PandasDataFrame, Dictionary}" and sf: "steps_fitted self = Some F"
  shows "(F = [] \<longrightarrow>
            predict E self h X =
              \<lparr>result = Inl IndexError, self_after = self, heap_after = h, trace = []\<rparr>) \<and>
         (F \<noteq> [] \<longrightarrow>
            (let out = predict E self h X; cs = trace out in
             cs \<noteq> [] \<and> result out = c_out (last cs) \<and> self_after out = self \<and>
             map c_tag cs = take (length cs) (map fst F) \<and>
             (\<forall>v. result out = Inr v \<longrightarrow> length cs = length F) \<and>
             (\<exists>Xi hs. copy_X_if_use_init_data E self X = Inr Xi \<and>
                c_X (cs ! 0) = return_X self (c_tag (cs ! 0)) X Xi \<and>
                (\<forall>i. Suc i < length cs \<longrightarrow>
                   (\<exists>X'. c_out (cs ! i) = Inr X' \<and>
                         c_X (cs ! Suc i) = return_X self (c_tag (cs ! Suc i)) X' Xi)) \<and>
                length hs = Suc (length cs) \<and> hs ! 0 = h \<and> hs ! length cs = heap_after out \<and>
                (\<forall>i < length cs.
                   (Suc i < length F \<longrightarrow>
                      c_out (cs ! i) =
                        fst (pipeline_transform E (step_states F (hs ! i)) (fst (F ! i))
                               (hs ! i ! snd (F ! i)) (c_X (cs ! i))) \<and>
                      hs ! Suc i =
                        (hs ! i)[snd (F ! i) :=
                           snd (pipeline_transform E (step_states F (hs ! i)) (fst (F ! i))
                                  (hs ! i ! snd (F ! i)) (c_X (cs ! i)))]) \<and>
                   (Suc i = length F \<longrightarrow>
                      c_out (cs ! i) =
                        fst (pipeline_predict E (step_states F (hs ! i))
                               (hs ! i ! snd (F ! i)) (c_X (cs ! i))) \<and>
                      hs ! Suc i =
                        (hs ! i)[snd (F ! i) :=
                           snd (pipeline_predict E (step_states F (hs ! i))
                                  (hs ! i ! snd (F ! i)) (c_X (cs ! i)))])))))"
proof -
  let ?out = "predict E self h X"
  let ?cs = "trace ?out"
  from copy_if_ok [OF ok, of E self] obtain Xi where cp: "copy_X_if_use_init_data E self X = Inr Xi" ..
  note th = predict_threaded [OF cp, of h]
  note tg = predict_shape [OF sf, of E h X]
  have fed: "\<forall>i. Suc i < length ?cs \<longrightarrow>
                   (\<exists>X'. c_out (?cs ! i) = Inr X' \<and>
                         c_X (?cs ! Suc i) = return_X self (c_tag (?cs ! Suc i)) X' Xi)"
    using threaded_step [OF th] by blast
  have main: "(F = [] \<longrightarrow> ?out = \<lparr>result = Inl IndexError, self_after = self, heap_after = h, trace = []\<rparr>) \<and>
    (F \<noteq> [] \<longrightarrow> ?cs \<noteq> [] \<and> result ?out = c_out (last ?cs) \<and> self_after ?out = self \<and>
       (\<forall>v. result ?out = Inr v \<longrightarrow> length ?cs = length F) \<and>
       (\<exists>hs. length hs = Suc (length ?cs) \<and> hs ! 0 = h \<and> hs ! length ?cs = heap_after ?out \<and>
                (\<forall>i < length ?cs.
                   (Suc i < length F \<longrightarrow>
                      c_out (?cs ! i) =
                        fst (pipeline_transform E (step_states F (hs ! i)) (fst (F ! i))
                               (hs ! i ! snd (F ! i)) (c_X (?cs ! i))) \<and>
                      hs ! Suc i =
                        (hs ! i)[snd (F ! i) :=
                           snd (pipeline_transform E (step_states F (hs ! i)) (fst (F ! i))
                                  (hs ! i ! snd (F ! i)) (c_X (?cs ! i)))]) \<and>
                   (Suc i = length F \<longrightarrow>
                      c_out (?cs ! i) =
                        fst (pipeline_predict E (step_states F (hs ! i))
                               (hs ! i ! snd (F ! i)) (c_X (?cs ! i))) \<and>
                      hs ! Suc i =
                        (hs ! i)[snd (F ! i) :=
                           snd (pipeline_predict E (step_states F (hs ! i))
                                  (hs ! i ! snd (F ! i)) (c_X (?cs ! i)))]))))"
  proof (cases rule: predict_cases [where E=E and self=self and h=h and X=X])
    case (type_error n)
    with ok show ?thesis by simp
  next
    case (copy_error e)
    with cp show ?thesis by simp
  next
    case (unfitted Xi')
    with sf show ?thesis by simp
  next
    case (no_steps Xi')
    with sf show ?thesis by simp
  next
    case (loop_error Xi' F' e h1 cs)
    with sf cp have F': "F' = F" and Xi': "Xi' = Xi" by simp_all
    note lp = loop_error(3) [unfolded F' Xi']
    note lf = tloop_facts [OF lp]
    have tr: "?cs = cs" and hp: "heap_after ?out = h1" and rs: "result ?out = Inl e"
      and sa: "self_after ?out = self" by (simp_all add: loop_error(4))
    from lf(2) have ne: "cs \<noteq> []" and lo: "c_out (last cs) = Inl e"
      by (auto simp: last_out_def split: if_splits)
    from lf(5) have le: "length cs \<le> length F - 1" by simp
    from transform_loop_stores [OF lp] obtain hs where
      hs: "length hs = Suc (length cs)" "hs ! 0 = h" "hs ! length cs = h1"
      and st: "\<forall>i < length cs.
              c_out (cs ! i) =
                fst (pipeline_transform E (step_states F (hs ! i)) (fst (butlast F ! i))
                       (hs ! i ! snd (butlast F ! i)) (c_X (cs ! i))) \<and>
              hs ! Suc i =
                (hs ! i)[snd (butlast F ! i) :=
                   snd (pipeline_transform E (step_states F (hs ! i)) (fst (butlast F ! i))
                          (hs ! i ! snd (butlast F ! i)) (c_X (cs ! i)))]" by blast
    have "(Suc i < length F \<longrightarrow>
                      c_out (cs ! i) =
                        fst (pipeline_transform E (step_states F (hs ! i)) (fst (F ! i))
                               (hs ! i ! snd (F ! i)) (c_X (cs ! i))) \<and>
                      hs ! Suc i =
                        (hs ! i)[snd (F ! i) :=
                           snd (pipeline_transform E (step_states F (hs ! i)) (fst (F ! i))
                                  (hs ! i ! snd (F ! i)) (c_X (cs ! i)))]) \<and>
                   (Suc i = length F \<longrightarrow>
                      c_out (cs ! i) =
                        fst (pipeline_predict E (step_states F (hs ! i))
                               (hs ! i ! snd (F ! i)) (c_X (cs ! i))) \<and>
                      hs ! Suc i =
                        (hs ! i)[snd (F ! i) :=
                           snd (pipeline_predict E (step_states F (hs ! i))
                                  (hs ! i ! snd (F ! i)) (c_X (cs ! i)))])"
      if i: "i < length cs" for i
    proof -
      from i le have ib: "i < length (butlast F)" by simp
      then have nb: "butlast F ! i = F ! i" by (simp add: nth_butlast)
      from ib have ns: "Suc i \<noteq> length F" by simp
      from st i have "c_out (cs ! i) =
                fst (pipeline_transform E (step_states F (hs ! i)) (fst (butlast F ! i))
                       (hs ! i ! snd (butlast F ! i)) (c_X (cs ! i))) \<and>
              hs ! Suc i =
                (hs ! i)[snd (butlast F ! i) :=
                   snd (pipeline_transform E (step_states F (hs ! i)) (fst (butlast F ! i))
                          (hs ! i ! snd (butlast F ! i)) (c_X (cs ! i)))]" by blast
      with ns show ?thesis by (simp only: nb) simp
    qed
    moreover from ne le have "F \<noteq> []" by auto
    ultimately show ?thesis using hs ne lo unfolding tr hp rs sa
      by (intro conjI impI allI exI [of _ hs]) simp_all
  next
    case (final Xi' F' X1 h1 cs0 r' st')
    with sf cp have F': "F' = F" and Xi': "Xi' = Xi" by simp_all
    note lp = final(4) [unfolded F' Xi']
    note pf = final(5) [unfolded F' Xi']
    note ne = final(3) [unfolded F']
    note lf = tloop_facts [OF lp]
    let ?a = "snd (last F)"
    let ?c = "\<lparr>c_method = Predict, c_tag = fst (last F),
                c_X = return_X self (fst (last F)) X1 Xi, c_out = r'\<rparr>"
    have tr: "?cs = cs0 @ [?c]" and hp: "heap_after ?out = h1[?a := st']"
      and rs: "result ?out = r'" and sa: "self_after ?out = self"
      by (simp_all add: final(6) F' Xi')
    from lf(6) have n0: "length cs0 = length (butlast F)" by simp
    with ne have n0': "Suc (length cs0) = length F" by (cases F) auto
    from transform_loop_stores [OF lp] obtain hs where
      hs: "length hs = Suc (length cs0)" "hs ! 0 = h" "hs ! length cs0 = h1"
      and st: "\<forall>i < length cs0.
              c_out (cs0 ! i) =
                fst (pipeline_transform E (step_states F (hs ! i)) (fst (butlast F ! i))
                       (hs ! i ! snd (butlast F ! i)) (c_X (cs0 ! i))) \<and>
              hs ! Suc i =
                (hs ! i)[snd (butlast F ! i) :=
                   snd (pipeline_transform E (step_states F (hs ! i)) (fst (butlast F ! i))
                          (hs ! i ! snd (butlast F ! i)) (c_X (cs0 ! i)))]" by blast
    let ?hs = "hs @ [h1[?a := st']]"
    have A: "length ?hs = Suc (length (cs0 @ [?c]))" using hs(1) by simp
    have B: "?hs ! 0 = h" using hs(1,2) by (simp add: nth_append)
    have C: "?hs ! length (cs0 @ [?c]) = h1[?a := st']" using hs(1) by (simp add: nth_append)
    from n0' have "length cs0 = length F - 1" by simp
    then have lastF: "F ! length cs0 = last F" using ne by (simp add: last_conv_nth)
    have D: "(Suc i < length F \<longrightarrow>
                      c_out ((cs0 @ [?c]) ! i) =
                        fst (pipeline_transform E (step_states F (?hs ! i)) (fst (F ! i))
                               (?hs ! i ! snd (F ! i)) (c_X ((cs0 @ [?c]) ! i))) \<and>
                      ?hs ! Suc i =
                        (?hs ! i)[snd (F ! i) :=
                           snd (pipeline_transform E (step_states F (?hs ! i)) (fst (F ! i))
                                  (?hs ! i ! snd (F ! i)) (c_X ((cs0 @ [?c]) ! i)))]) \<and>
                   (Suc i = length F \<longrightarrow>
                      c_out ((cs0 @ [?c]) ! i) =
                        fst (pipeline_predict E (step_states F (?hs ! i))
                               (?hs ! i ! snd (F ! i)) (c_X ((cs0 @ [?c]) ! i))) \<and>
                      ?hs ! Suc i =
                        (?hs ! i)[snd (F ! i) :=
                           snd (pipeline_predict E (step_states F (?hs ! i))
                                  (?hs ! i ! snd (F ! i)) (c_X ((cs0 @ [?c]) ! i)))])"
      if i: "i < length (cs0 @ [?c])" for i
    proof (cases "i < length cs0")
      case True
      with n0 have ib: "i < length (butlast F)" by simp
      then have nb: "butlast F ! i = F ! i" by (simp add: nth_butlast)
      from True n0' have ns: "Suc i \<noteq> length F" by simp
      from True have ci: "(cs0 @ [?c]) ! i = cs0 ! i" by (simp add: nth_append)
      from True hs(1) have hi: "?hs ! i = hs ! i" "?hs ! Suc i = hs ! Suc i"
        by (simp_all add: nth_append)
      from st True have "c_out (cs0 ! i) =
                fst (pipeline_transform E (step_states F (hs ! i)) (fst (butlast F ! i))
                       (hs ! i ! snd (butlast F ! i)) (c_X (cs0 ! i))) \<and>
              hs ! Suc i =
                (hs ! i)[snd (butlast F ! i) :=
                   snd (pipeline_transform E (step_states F (hs ! i)) (fst (butlast F ! i))
                          (hs ! i ! snd (butlast F ! i)) (c_X (cs0 ! i)))]" by blast
      with ns show ?thesis by (simp only: nb ci hi) simp
    next
      case False
      with i have ie: "i = length cs0" by simp
      have ci: "(cs0 @ [?c]) ! length cs0 = ?c" by simp
      have hi: "?hs ! length cs0 = h1" "?hs ! Suc (length cs0) = h1[?a := st']"
        using hs(1,3) by (simp_all add: nth_append)
      from n0' have ns: "\<not> Suc (length cs0) < length F" by simp
      show ?thesis unfolding ie
        by (simp only: ci hi lastF ns) (simp add: pf)
    qed
    from A B C D n0' ne show ?thesis unfolding tr hp rs sa
      by (intro conjI impI allI exI [of _ ?hs]) simp_all
  qed
  have first: "?cs \<noteq> [] \<longrightarrow> c_X (?cs ! 0) = return_X self (c_tag (?cs ! 0)) X Xi"
    using threaded_first [OF th] by blast
  show ?thesis
  proof (intro conjI impI)
    assume "F = []" with main show "?out = \<lparr>result = Inl IndexError, self_after = self, heap_after = h, trace = []\<rparr>"
      by blast
  next
    assume ne: "F \<noteq> []"
    with main obtain hs where m: "?cs \<noteq> []" "result ?out = c_out (last ?cs)" "self_after ?out = self"
       "\<forall>v. result ?out = Inr v \<longrightarrow> length ?cs = length F"
       and hs: "length hs = Suc (length ?cs) \<and> hs ! 0 = h \<and> hs ! length ?cs = heap_after ?out \<and>
                (\<forall>i < length ?cs.
                   (Suc i < length F \<longrightarrow>
                      c_out (?cs ! i) =
                        fst (pipeline_transform E (step_states F (hs ! i)) (fst (F ! i))
                               (hs ! i ! snd (F ! i)) (c_X (?cs ! i))) \<and>
                      hs ! Suc i =
                        (hs ! i)[snd (F ! i) :=
                           snd (pipeline_transform E (step_states F (hs ! i)) (fst (F ! i))
                                  (hs ! i ! snd (F ! i)) (c_X (?cs ! i)))]) \<and>
                   (Suc i = length F \<longrightarrow>
                      c_out (?cs ! i) =
                        fst (pipeline_predict E (step_states F (hs ! i))
                               (hs ! i ! snd (F ! i)) (c_X (?cs ! i))) \<and>
                      hs ! Suc i =
                        (hs ! i)[snd (F ! i) :=
                           snd (pipeline_predict E (step_states F (hs ! i))
                                  (hs ! i ! snd (F ! i)) (c_X (?cs ! i)))]))" by blast
    from m first have f0: "c_X (?cs ! 0) = return_X self (c_tag (?cs ! 0)) X Xi" by blast
    show "(let out = predict E self h X; cs = trace out in
             cs \<noteq> [] \<and> result out = c_out (last cs) \<and> self_after out = self \<and>
             map c_tag cs = take (length cs) (map fst F) \<and>
             (\<forall>v. result out = Inr v \<longrightarrow> length cs = length F) \<and>
             (\<exists>Xi hs. copy_X_if_use_init_data E self X = Inr Xi \<and>
                c_X (cs ! 0) = return_X self (c_tag (cs ! 0)) X Xi \<and>
                (\<forall>i. Suc i < length cs \<longrightarrow>
                   (\<exists>X'. c_out (cs ! i) = Inr X' \<and>
                         c_X (cs ! Suc i) = return_X self (c_tag (cs ! Suc i)) X' Xi)) \<and>
                length hs = Suc (length cs) \<and> hs ! 0 = h \<and> hs ! length cs = heap_after out \<and>
                (\<forall>i < length cs.
                   (Suc i < length F \<longrightarrow>
                      c_out (cs ! i) =
                        fst (pipeline_transform E (step_states F (hs ! i)) (fst (F ! i))
                               (hs ! i ! snd (F ! i)) (c_X (cs ! i))) \<and>
                      hs ! Suc i =
                        (hs ! i)[snd (F ! i) :=
                           snd (pipeline_transform E (step_states F (hs ! i)) (fst (F ! i))
                                  (hs ! i ! snd (F ! i)) (c_X (cs ! i)))]) \<and>
                   (Suc i = length F \<longrightarrow>
                      c_out (cs ! i) =
                        fst (pipeline_predict E (step_states F (hs ! i))
                               (hs ! i ! snd (F ! i)) (c_X (cs ! i))) \<and>
                      hs ! Suc i =
                        (hs ! i)[snd (F ! i) :=
                           snd (pipeline_predict E (step_states F (hs ! i))
                                  (hs ! i ! snd (F ! i)) (c_X (cs ! i)))]))))"
      unfolding Let_def using m tg cp f0 fed hs
      by (intro conjI exI [of _ Xi] exI [of _ hs]) blast+
  qed
qed

subsection \<open>The example runs\<close>

lemmas demo_defs = demo_def pipe_init_def pipe_plain_def pipe_first_def gen_opt_def
  fit_def transform_def predict_def deepcopy_def check_allowed_types_def
  copy_X_if_use_init_data_def return_X_def step_states_def Let_def
  store0_def table0_def target0_def pipe_init_fitted_def store_fitted_def

lemma demo_fit_init:
  "fit demo pipe_init store0 table0 target0 PyNone =
     \<lparr>result = Inr PyNone, self_after = pipe_init_fitted, heap_after = store_fitted,
      trace = [\<lparr>c_method = FitTransform, c_tag = ''gen'', c_X = PyDataFrame (0, 5),
                 c_out = Inr (PyDataFrame (2, 15))\<rparr>,
               \<lparr>c_method = Fit, c_tag = ''opt'', c_X = PyDataFrame (1, 5), c_out = Inr PyNone\<rparr>]\<rparr>"
  by (simp add: demo_defs)



lemma demo_transform_init:
  "transform demo pipe_init_fitted store_fitted table0 =
     \<lparr>result = Inr (PyDataFrame (3, 15)), self_after = pipe_init_fitted, heap_after = store_fitted,
      trace = [\<lparr>c_method = Transform, c_tag = ''gen'', c_X = PyDataFrame (0, 5),
                 c_out = Inr (PyDataFrame (2, 15))\<rparr>,
               \<lparr>c_method = Transform, c_tag = ''opt'', c_X = PyDataFrame (1, 5),
                 c_out = Inr (PyDataFrame (3, 15))\<rparr>]\<rparr>"
  by (simp add: demo_defs)

lemma demo_predict_init:
  "predict demo pipe_init_fitted store_fitted table0 =
     \<lparr>result = Inr (PySeries (3, 6)), self_after = pipe_init_fitted, heap_after = store_fitted,
      trace = [\<lparr>c_method = Transform, c_tag = ''gen'', c_X = PyDataFrame (0, 5),
                 c_out = Inr (PyDataFrame (2, 15))\<rparr>,
               \<lparr>c_method = Predict, c_tag = ''opt'', c_X = PyDataFrame (1, 5),
                 c_out = Inr (PySeries (3, 6))\<rparr>]\<rparr>"
  by (simp add: demo_defs)


lemmas demo_defs2 = demo_defs dict0_def pipe_plain_failed_def store_failed_def

lemma demo_fit_failed:
  "fit demo pipe_plain store0 dict0 target0 PyNone =
     \<lparr>result = Inl (StepError ''gen''), self_after = pipe_plain_failed, heap_after = store_failed,
      trace = [\<lparr>c_method = FitTransform, c_tag = ''gen'', c_X = PyDict [],
                 c_out = Inl (StepError ''gen'')\<rparr>]\<rparr>"
  by (simp add: demo_defs2)

lemma demo_transform_failed:
  "transform demo pipe_plain_failed store_failed table0 =
     \<lparr>result = Inr (PyDataFrame (4, 25)), self_after = pipe_plain_failed, heap_after = store_failed,
      trace = [\<lparr>c_method = Transform, c_tag = ''gen'', c_X = PyDataFrame (0, 5),
                 c_out = Inr (PyDataFrame (2, 15))\<rparr>,
               \<lparr>c_method = Transform, c_tag = ''opt'', c_X = PyDataFrame (2, 15),
                 c_out = Inr (PyDataFrame (4, 25))\<rparr>]\<rparr>"
  by (simp add: demo_defs2)

lemma demo_predict_failed:
  "predict demo pipe_plain_failed store_failed table0 =
     \<lparr>result = Inr (PySeries (4, 15)), self_after = pipe_plain_failed, heap_after = store_failed,
      trace = [\<lparr>c_method = Transform, c_tag = ''gen'', c_X = PyDataFrame (0, 5),
                 c_out = Inr (PyDataFrame (2, 15))\<rparr>,
               \<lparr>c_method = Predict, c_tag = ''opt'', c_X = PyDataFrame (2, 15),
                 c_out = Inr (PySeries (4, 15))\<rparr>]\<rparr>"
  by (simp add: demo_defs2)

lemma demo_pipes:
  "steps pipe_init = gen_opt" "use_init_data pipe_init = Some [PyStr ''opt'']"
  "steps_fitted pipe_init = None" "rules pipe_init = None"
  "steps pipe_plain = gen_opt" "use_init_data pipe_plain = None"
  "steps_fitted pipe_plain = None" "rules pipe_plain = None"
  "steps pipe_first = gen_opt" "use_init_data pipe_first = Some [PyStr ''gen'']"
  "steps_fitted pipe_first = None" "rules pipe_first = None"
  by (simp_all add: pipe_init_def pipe_plain_def pipe_first_def)


lemma table0_type: "py_type_of table0 = PandasDataFrame" "py_type_of target0 = PandasSeries"
  by (simp_all add: table0_def target0_def)

section \<open>The accessor\<close>

text \<open>
  C3. For every accessor and every state mapping: when the tag is a key and the
  attribute is in its namespace, \<open>get\<close> returns exactly that value; when the tag is
  absent, \<open>get\<close> raises the \<open>ValueError\<close> whose message names the tag (and so returns no
  value at all); when the tag is present and the attribute is absent, the \<open>KeyError\<close>
  of the namespace lookup is what \<open>get\<close> ends with.
\<close>

theorem get_spec:
  "(pipeline_params (class_tag self) = Some ns \<and> ns (class_attribute self) = Some v
      \<longrightarrow> get self pipeline_params = Inr v) \<and>
   (pipeline_params (class_tag self) = None
      \<longrightarrow> get self pipeline_params =
            Inl (ValueError (''There are no steps in `pipeline` corresponding to `class_tag`='' @
                             [CHR 0x27] @ class_tag self @ [CHR 0x27]))
          \<and> (\<forall>v. get self pipeline_params \<noteq> Inr v)) \<and>
   (pipeline_params (class_tag self) = Some ns \<and> ns (class_attribute self) = None
      \<longrightarrow> get self pipeline_params = Inl (KeyError (class_attribute self)))"
  by (auto simp: get_def dom_def)

theorem get_spec_witness:
  "get \<lparr>class_tag = ''gen'', class_attribute = ''rule_strings''\<rparr>
       [''gen'' \<mapsto> [''rule_strings'' \<mapsto> (7::nat)]] = Inr 7 \<and>
   get \<lparr>class_tag = ''opt'', class_attribute = ''rule_strings''\<rparr>
       [''gen'' \<mapsto> [''rule_strings'' \<mapsto> (7::nat)]] =
     Inl (ValueError (''There are no steps in `pipeline` corresponding to `class_tag`='' @
                     [CHR 0x27] @ ''opt'' @ [CHR 0x27])) \<and>
   get \<lparr>class_tag = ''gen'', class_attribute = ''rules''\<rparr>
       [''gen'' \<mapsto> [''rule_strings'' \<mapsto> (7::nat)]] = Inl (KeyError ''rules'')"
  using get_spec [of "[''gen'' \<mapsto> [''rule_strings'' \<mapsto> (7::nat)]]"
                     "\<lparr>class_tag = ''gen'', class_attribute = ''rule_strings''\<rparr>"
                     "[''rule_strings'' \<mapsto> (7::nat)]" 7]
        get_spec [of "[''gen'' \<mapsto> [''rule_strings'' \<mapsto> (7::nat)]]"
                     "\<lparr>class_tag = ''opt'', class_attribute = ''rule_strings''\<rparr>"
                     "[''rule_strings'' \<mapsto> (7::nat)]" 7]
        get_spec [of "[''gen'' \<mapsto> [''rule_strings'' \<mapsto> (7::nat)]]"
                     "\<lparr>class_tag = ''gen'', class_attribute = ''rules''\<rparr>"
                     "[''rule_strings'' \<mapsto> (7::nat)]" 7]
  by simp

section \<open>Input selection and the order of the calls\<close>





text \<open>
  C5. A \<open>fit\<close> that returns has run every step once, in order, on the copies in
  \<open>steps_\<close>: the stores \<open>hs\<close> between the calls start with the store that \<open>deepcopy\<close>
  left and end with the store that \<open>fit\<close> leaves; every call but the last is the
  \<open>fit_transform\<close> of its step on the store before it, its output and the new state of
  the step are what \<open>_pipeline_fit_transform\<close> returned, and the output is fed forward
  through the input selection to the next call; the last call is the \<open>fit\<close> (not the
  \<open>fit_transform\<close>) of the last step. After it the \<open>rules\<close> of the pipeline are the
  \<open>rules\<close> of the last fitted step.
\<close>

theorem fit_runs_steps:
  assumes "result (fit E self h X y sw) = Inr v"
  shows "(let out = fit E self h X y sw; cs = trace out in
          map c_tag cs = map fst (steps self) \<and>
          map c_method cs = replicate (length (steps self) - 1) FitTransform @ [Fit] \<and>
          (\<exists>Xi F hs.
             copy_X_if_use_init_data E self X = Inr Xi \<and>
             steps_fitted (self_after out) = Some F \<and> F = fst (deepcopy (steps self) h) \<and>
             F \<noteq> [] \<and>
             length hs = Suc (length cs) \<and> hs ! 0 = snd (deepcopy (steps self) h) \<and>
             hs ! length cs = heap_after out \<and>
             c_X (cs ! 0) = return_X self (c_tag (cs ! 0)) X Xi \<and>
             (\<forall>i. Suc i < length cs \<longrightarrow>
                c_out (cs ! i) =
                  fst (pipeline_fit_transform E (step_states F (hs ! i)) (fst (F ! i))
                         (hs ! i ! snd (F ! i)) (c_X (cs ! i)) y sw) \<and>
                hs ! Suc i =
                  (hs ! i)[snd (F ! i) :=
                     snd (pipeline_fit_transform E (step_states F (hs ! i)) (fst (F ! i))
                            (hs ! i ! snd (F ! i)) (c_X (cs ! i)) y sw)] \<and>
                (\<exists>X'. c_out (cs ! i) = Inr X' \<and>
                      c_X (cs ! Suc i) = return_X self (c_tag (cs ! Suc i)) X' Xi)) \<and>
             c_out (cs ! (length cs - 1)) =
               fst (pipeline_fit E (step_states F (hs ! (length cs - 1))) (fst (last F))
                      (hs ! (length cs - 1) ! snd (last F)) (c_X (cs ! (length cs - 1))) y sw) \<and>
             hs ! length cs =
               (hs ! (length cs - 1))[snd (last F) :=
                  snd (pipeline_fit E (step_states F (hs ! (length cs - 1))) (fst (last F))
                         (hs ! (length cs - 1) ! snd (last F)) (c_X (cs ! (length cs - 1))) y sw)] \<and>
             rules (self_after out) = step_rules E (heap_after out ! snd (last F)) \<and>
             rules (self_after out) \<noteq> None))"
proof -
  let ?out = "fit E self h X y sw"
  have ne: "trace ?out \<noteq> []"
    using assms by (cases rule: fit_cases [where E=E and self=self and h=h and X=X and y=y and sw=sw]) simp_all
  from assms fit_shape [of E self h X y sw] have len: "length (trace ?out) = length (steps self)"
    by blast
  with fit_shape [of E self h X y sw] have tg: "map c_tag (trace ?out) = map fst (steps self)"
    by simp
  from ne len have "length (replicate (length (steps self) - 1) FitTransform @ [Fit]) = length (steps self)"
    by (cases "steps self") auto
  with len fit_shape [of E self h X y sw]
  have mt: "map c_method (trace ?out) = replicate (length (steps self) - 1) FitTransform @ [Fit]"
    by (simp only: take_all [OF eq_imp_le])
  have "\<exists>Xi F hs.
             copy_X_if_use_init_data E self X = Inr Xi \<and>
             steps_fitted (self_after ?out) = Some F \<and> F = fst (deepcopy (steps self) h) \<and>
             F \<noteq> [] \<and>
             length hs = Suc (length (trace ?out)) \<and> hs ! 0 = snd (deepcopy (steps self) h) \<and>
             hs ! length (trace ?out) = heap_after ?out \<and>
             c_X (trace ?out ! 0) = return_X self (c_tag (trace ?out ! 0)) X Xi \<and>
             (\<forall>i. Suc i < length (trace ?out) \<longrightarrow>
                c_out (trace ?out ! i) =
                  fst (pipeline_fit_transform E (step_states F (hs ! i)) (fst (F ! i))
                         (hs ! i ! snd (F ! i)) (c_X (trace ?out ! i)) y sw) \<and>
                hs ! Suc i =
                  (hs ! i)[snd (F ! i) :=
                     snd (pipeline_fit_transform E (step_states F (hs ! i)) (fst (F ! i))
                            (hs ! i ! snd (F ! i)) (c_X (trace ?out ! i)) y sw)] \<and>
                (\<exists>X'. c_out (trace ?out ! i) = Inr X' \<and>
                      c_X (trace ?out ! Suc i) = return_X self (c_tag (trace ?out ! Suc i)) X' Xi)) \<and>
             c_out (trace ?out ! (length (trace ?out) - 1)) =
               fst (pipeline_fit E (step_states F (hs ! (length (trace ?out) - 1))) (fst (last F))
                      (hs ! (length (trace ?out) - 1) ! snd (last F))
                      (c_X (trace ?out ! (length (trace ?out) - 1))) y sw) \<and>
             hs ! length (trace ?out) =
               (hs ! (length (trace ?out) - 1))[snd (last F) :=
                  snd (pipeline_fit E (step_states F (hs ! (length (trace ?out) - 1))) (fst (last F))
                         (hs ! (length (trace ?out) - 1) ! snd (last F))
                         (c_X (trace ?out ! (length (trace ?out) - 1))) y sw)] \<and>
             rules (self_after ?out) = step_rules E (heap_after ?out ! snd (last F)) \<and>
             rules (self_after ?out) \<noteq> None"
  proof (cases rule: fit_cases [where E=E and self=self and h=h and X=X and y=y and sw=sw])
    case (fitted Xi F h0 X1 h1 cs0 v' st rs)
    let ?a = "snd (last F)"
    let ?c = "\<lparr>c_method = Fit, c_tag = fst (last F),
                c_X = return_X self (fst (last F)) X1 Xi, c_out = Inr v'\<rparr>"
    have tr: "trace ?out = cs0 @ [?c]" and hp: "heap_after ?out = h1[?a := st]"
      and sf: "steps_fitted (self_after ?out) = Some F" and ru: "rules (self_after ?out) = Some rs"
      by (simp_all add: fitted(7))
    from loop_facts(6) [OF fitted(4)] have n0: "length cs0 = length (butlast F)" by simp
    with fitted(3) have n0': "length cs0 = length F - 1" by simp
    from fit_loop_stores [OF fitted(4)] obtain hs where
      hs: "length hs = Suc (length (butlast F))" "hs ! 0 = h0" "hs ! length (butlast F) = h1"
      and run: "\<forall>i < length (butlast F).
              c_out (cs0 ! i) =
                fst (pipeline_fit_transform E (step_states F (hs ! i)) (fst (butlast F ! i))
                       (hs ! i ! snd (butlast F ! i)) (c_X (cs0 ! i)) y sw) \<and>
              hs ! Suc i =
                (hs ! i)[snd (butlast F ! i) :=
                   snd (pipeline_fit_transform E (step_states F (hs ! i)) (fst (butlast F ! i))
                          (hs ! i ! snd (butlast F ! i)) (c_X (cs0 ! i)) y sw)]" by blast
    let ?hs = "hs @ [h1[?a := st]]"
    from fit_threaded [OF fitted(1), of h y sw] have th: "threaded self Xi X (trace ?out)" .
    from threaded_first [OF th ne] have first: "c_X (trace ?out ! 0) = return_X self (c_tag (trace ?out ! 0)) X Xi" .
    have lt: "length (trace ?out) = Suc (length cs0)" by (simp add: tr)
    have A: "length ?hs = Suc (length (trace ?out))" using hs(1) n0 lt by simp
    have B: "?hs ! 0 = snd (deepcopy (steps self) h)" using hs(1,2) fitted(2) by (simp add: nth_append)
    have C: "?hs ! length (trace ?out) = heap_after ?out"
      using hs(1) n0 lt hp by (simp add: nth_append)
    have D: "c_out (trace ?out ! i) =
                  fst (pipeline_fit_transform E (step_states F (?hs ! i)) (fst (F ! i))
                         (?hs ! i ! snd (F ! i)) (c_X (trace ?out ! i)) y sw) \<and>
                ?hs ! Suc i =
                  (?hs ! i)[snd (F ! i) :=
                     snd (pipeline_fit_transform E (step_states F (?hs ! i)) (fst (F ! i))
                            (?hs ! i ! snd (F ! i)) (c_X (trace ?out ! i)) y sw)] \<and>
                (\<exists>X'. c_out (trace ?out ! i) = Inr X' \<and>
                      c_X (trace ?out ! Suc i) = return_X self (c_tag (trace ?out ! Suc i)) X' Xi)"
      if i: "Suc i < length (trace ?out)" for i
    proof -
      from i lt have i0: "i < length cs0" by simp
      with n0 have ib: "i < length (butlast F)" by simp
      then have nb: "butlast F ! i = F ! i" by (simp add: nth_butlast)
      from i0 have ci: "trace ?out ! i = cs0 ! i" by (simp add: tr nth_append)
      from ib hs(1) have h1': "?hs ! i = hs ! i" "?hs ! Suc i = hs ! Suc i" by (simp_all add: nth_append)
      from run ib have "c_out (cs0 ! i) =
                fst (pipeline_fit_transform E (step_states F (hs ! i)) (fst (butlast F ! i))
                       (hs ! i ! snd (butlast F ! i)) (c_X (cs0 ! i)) y sw) \<and>
              hs ! Suc i =
                (hs ! i)[snd (butlast F ! i) :=
                   snd (pipeline_fit_transform E (step_states F (hs ! i)) (fst (butlast F ! i))
                          (hs ! i ! snd (butlast F ! i)) (c_X (cs0 ! i)) y sw)]" by blast
      with threaded_step [OF th i] show ?thesis by (simp only: nb ci h1')
    qed
    have last_i: "length (trace ?out) - 1 = length cs0" by (simp add: tr)
    have cl: "trace ?out ! length cs0 = ?c" by (simp add: tr)
    have hl: "?hs ! length cs0 = h1" using hs(1,3) n0 by (simp add: nth_append)
    have E1: "c_out (trace ?out ! (length (trace ?out) - 1)) =
               fst (pipeline_fit E (step_states F (?hs ! (length (trace ?out) - 1))) (fst (last F))
                      (?hs ! (length (trace ?out) - 1) ! snd (last F))
                      (c_X (trace ?out ! (length (trace ?out) - 1))) y sw)"
      by (simp only: last_i cl hl) (simp add: fitted(5))
    have E2: "?hs ! length (trace ?out) =
               (?hs ! (length (trace ?out) - 1))[snd (last F) :=
                  snd (pipeline_fit E (step_states F (?hs ! (length (trace ?out) - 1))) (fst (last F))
                         (?hs ! (length (trace ?out) - 1) ! snd (last F))
                         (c_X (trace ?out ! (length (trace ?out) - 1))) y sw)]"
      by (simp only: C hp last_i cl hl) (simp add: fitted(5))
    have F1: "F = fst (deepcopy (steps self) h)" using fitted(2) by simp
    have R: "rules (self_after ?out) = step_rules E (heap_after ?out ! snd (last F))"
      "rules (self_after ?out) \<noteq> None" using ru hp fitted(6) by simp_all
    from fitted(1) sf F1 fitted(3) A B C first D E1 E2 R show ?thesis
      by (intro exI [of _ Xi] exI [of _ F] exI [of _ ?hs]) blast
  qed (use assms in simp_all)
  with tg mt show ?thesis unfolding Let_def by blast
qed

theorem fit_runs_steps_witness:
  "result (fit demo pipe_init store0 table0 target0 PyNone) = Inr PyNone \<and>
   map c_tag (trace (fit demo pipe_init store0 table0 target0 PyNone)) = [''gen'', ''opt''] \<and>
   map c_method (trace (fit demo pipe_init store0 table0 target0 PyNone)) = [FitTransform, Fit] \<and>
   deepcopy (steps pipe_init) store0 = ([(''gen'', 2), (''opt'', 3)], [[], [], [], []]) \<and>
   pipeline_fit_transform demo (step_states [(''gen'', 2), (''opt'', 3)] [[], [], [], []]) ''gen''
     ([[], [], [], []] ! 2) table0 target0 PyNone = (Inr (PyDataFrame (2, 15)), [5]) \<and>
   c_out (trace (fit demo pipe_init store0 table0 target0 PyNone) ! 0) = Inr (PyDataFrame (2, 15)) \<and>
   pipeline_fit demo (step_states [(''gen'', 2), (''opt'', 3)] [[], [], [5], []]) ''opt''
     ([[], [], [5], []] ! 3) (PyDataFrame (1, 5)) target0 PyNone = (Inr PyNone, [5]) \<and>
   c_X (trace (fit demo pipe_init store0 table0 target0 PyNone) ! 1) = PyDataFrame (1, 5) \<and>
   c_out (trace (fit demo pipe_init store0 table0 target0 PyNone) ! 1) = Inr PyNone \<and>
   heap_after (fit demo pipe_init store0 table0 target0 PyNone) = [[], [], [5], [5]] \<and>
   rules (self_after (fit demo pipe_init store0 table0 target0 PyNone)) =
     step_rules demo (heap_after (fit demo pipe_init store0 table0 target0 PyNone) ! 3) \<and>
   rules (self_after (fit demo pipe_init store0 table0 target0 PyNone)) = Some [5]"
proof -
  have dc: "deepcopy (steps pipe_init) store0 = ([(''gen'', 2), (''opt'', 3)], [[], [], [], []])"
    by (simp add: demo_pipes gen_opt_def store0_def deepcopy_def)
  have q1: "pipeline_fit_transform demo (step_states [(''gen'', 2), (''opt'', 3)] [[], [], [], []]) ''gen''
     ([[], [], [], []] ! 2) table0 target0 PyNone = (Inr (PyDataFrame (2, 15)), [5])"
    by (simp add: demo_def table0_def)
  have q2: "pipeline_fit demo (step_states [(''gen'', 2), (''opt'', 3)] [[], [], [5], []]) ''opt''
     ([[], [], [5], []] ! 3) (PyDataFrame (1, 5)) target0 PyNone = (Inr PyNone, [5])"
    by (simp add: demo_def)
  have sr: "step_rules demo ([[], [], [5], [5]] ! 3) = Some [5]" by (simp add: demo_def)
  from fit_runs_steps [where E = demo and self = pipe_init and h = store0
      and X = table0 and y = target0 and sw = PyNone and v = PyNone] dc q1 q2 sr
  show ?thesis
    by (simp add: demo_fit_init pipe_init_fitted_def store_fitted_def)
qed



section \<open>Errors\<close>

text \<open>
  C8. A \<open>use_init_data\<close> that is neither a list nor \<open>None\<close> is rejected with a type
  error by the constructor. A \<open>fit\<close> whose \<open>X\<close> is neither a table nor a dictionary, whose
  \<open>y\<close> is neither a column nor a dictionary, or whose \<open>sample_weight\<close> is given and is
  neither a column nor a dictionary ends with a type error that names the argument,
  before any step is called and with the pipeline (its \<open>steps_\<close> too) and the store
  unchanged.
\<close>

theorem type_errors_first:
  "(py_type_of u \<notin> {ClassList, ClassNoneType} \<longrightarrow>
      (init sts u :: exn + ('d, 'r) LinearPipeline) = Inl (TypeError ''use_init_data'')) \<and>
   (py_type_of X \<notin> {PandasDataFrame, Dictionary} \<or>
    py_type_of y \<notin> {PandasSeries, Dictionary} \<or>
    sw \<noteq> PyNone \<and> py_type_of sw \<notin> {PandasSeries, Dictionary} \<longrightarrow>
      (\<exists>n. n \<in> {''X'', ''y'', ''sample_weight''} \<and>
           fit E self h X y sw =
             \<lparr>result = Inl (TypeError n), self_after = self, heap_after = h, trace = []\<rparr>))"
  by (auto simp: init_def base_init_def fit_def check_allowed_types_def)

theorem type_errors_first_witness:
  "(init gen_opt (PyStr ''opt'') :: exn + (nat \<times> nat, nat list) LinearPipeline) =
     Inl (TypeError ''use_init_data'') \<and>
   fit demo pipe_init store0 target0 target0 PyNone =
     \<lparr>result = Inl (TypeError ''X''), self_after = pipe_init, heap_after = store0, trace = []\<rparr> \<and>
   fit demo pipe_init store0 table0 table0 PyNone =
     \<lparr>result = Inl (TypeError ''y''), self_after = pipe_init, heap_after = store0, trace = []\<rparr> \<and>
   fit demo pipe_init store0 table0 target0 (PyStr ''w'') =
     \<lparr>result = Inl (TypeError ''sample_weight''), self_after = pipe_init, heap_after = store0,
      trace = []\<rparr>"
  using type_errors_first [where u = "PyStr ''opt''" and sts = gen_opt and X = target0 and y = target0
      and sw = PyNone and E = demo and self = pipe_init and h = store0]
  by (simp add: init_def base_init_def fit_def check_allowed_types_def table0_type)

text \<open>
  C4, as the code has it. Before any successful \<open>fit\<close>, \<open>transform\<close> and \<open>predict\<close> never
  check the fitted state, for every configuration. With an \<open>X\<close> of a wrong kind they end
  with the type error of \<open>X\<close>. While no \<open>fit\<close> has assigned \<open>steps_\<close> they fail with
  the error that Python raises on using the unassigned \<open>steps_\<close>, a downstream error and
  not an explicit not-fitted error, without calling a step and without changing
  anything. Once a failed \<open>fit\<close> has assigned \<open>steps_\<close> (it does so before it runs any
  step), they do not fail by themselves: they run the steps of \<open>steps_\<close>, the copies of
  the configured steps, in order on the stores \<open>hs\<close>, every output and new state being
  what \<open>_pipeline_transform\<close> or \<open>_pipeline_predict\<close> returned, and they end with what
  the last step called returned or raised (\<open>transform\<close> of a pipeline without steps
  returns \<open>X\<close>, \<open>predict\<close> of one raises \<open>IndexError\<close>).
\<close>

theorem before_successful_fit:
  assumes "never_fitted E (self, h)"
  shows
    "(py_type_of X \<notin> {PandasDataFrame, Dictionary} \<longrightarrow>
        transform E self h X =
          \<lparr>result = Inl (TypeError ''X''), self_after = self, heap_after = h, trace = []\<rparr> \<and>
        predict E self h X =
          \<lparr>result = Inl (TypeError ''X''), self_after = self, heap_after = h, trace = []\<rparr>) \<and>
     (py_type_of X \<in> {PandasDataFrame, Dictionary} \<and> steps_fitted self = None \<longrightarrow>
        transform E self h X =
          \<lparr>result = Inl (UnsetAttributeError ''steps_''), self_after = self, heap_after = h,
           trace = []\<rparr> \<and>
        predict E self h X =
          \<lparr>result = Inl (UnsetAttributeError ''steps_''), self_after = self, heap_after = h,
           trace = []\<rparr>) \<and>
     (\<forall>F. py_type_of X \<in> {PandasDataFrame, Dictionary} \<and> steps_fitted self = Some F \<longrightarrow>
        map fst F = map fst (steps self) \<and>
        (let out = transform E self h X; cs = trace out in
          result out = last_out X cs \<and> self_after out = self \<and>
          map c_tag cs = take (length cs) (map fst F) \<and>
          (\<forall>v. result out = Inr v \<longrightarrow> length cs = length F) \<and>
          (\<exists>Xi hs. copy_X_if_use_init_data E self X = Inr Xi \<and>
             (cs \<noteq> [] \<longrightarrow> c_X (cs ! 0) = return_X self (c_tag (cs ! 0)) X Xi) \<and>
             (\<forall>i. Suc i < length cs \<longrightarrow>
                (\<exists>X'. c_out (cs ! i) = Inr X' \<and>
                      c_X (cs ! Suc i) = return_X self (c_tag (cs ! Suc i)) X' Xi)) \<and>
             length hs = Suc (length cs) \<and> hs ! 0 = h \<and> hs ! length cs = heap_after out \<and>
             (\<forall>i < length cs.
                c_out (cs ! i) =
                  fst (pipeline_transform E (step_states F (hs ! i)) (fst (F ! i))
                         (hs ! i ! snd (F ! i)) (c_X (cs ! i))) \<and>
                hs ! Suc i =
                  (hs ! i)[snd (F ! i) :=
                     snd (pipeline_transform E (step_states F (hs ! i)) (fst (F ! i))
                            (hs ! i ! snd (F ! i)) (c_X (cs ! i)))]))) \<and>
        (F = [] \<longrightarrow>
            predict E self h X =
              \<lparr>result = Inl IndexError, self_after = self, heap_after = h, trace = []\<rparr>) \<and>
        (F \<noteq> [] \<longrightarrow>
            (let out = predict E self h X; cs = trace out in
             cs \<noteq> [] \<and> result out = c_out (last cs) \<and> self_after out = self \<and>
             map c_tag cs = take (length cs) (map fst F) \<and>
             (\<forall>v. result out = Inr v \<longrightarrow> length cs = length F) \<and>
             (\<exists>Xi hs. copy_X_if_use_init_data E self X = Inr Xi \<and>
                c_X (cs ! 0) = return_X self (c_tag (cs ! 0)) X Xi \<and>
                (\<forall>i. Suc i < length cs \<longrightarrow>
                   (\<exists>X'. c_out (cs ! i) = Inr X' \<and>
                         c_X (cs ! Suc i) = return_X self (c_tag (cs ! Suc i)) X' Xi)) \<and>
                length hs = Suc (length cs) \<and> hs ! 0 = h \<and> hs ! length cs = heap_after out \<and>
                (\<forall>i < length cs.
                   (Suc i < length F \<longrightarrow>
                      c_out (cs ! i) =
                        fst (pipeline_transform E (step_states F (hs ! i)) (fst (F ! i))
                               (hs ! i ! snd (F ! i)) (c_X (cs ! i))) \<and>
                      hs ! Suc i =
                        (hs ! i)[snd (F ! i) :=
                           snd (pipeline_transform E (step_states F (hs ! i)) (fst (F ! i))
                                  (hs ! i ! snd (F ! i)) (c_X (cs ! i)))]) \<and>
                   (Suc i = length F \<longrightarrow>
                      c_out (cs ! i) =
                        fst (pipeline_predict E (step_states F (hs ! i))
                               (hs ! i ! snd (F ! i)) (c_X (cs ! i))) \<and>
                      hs ! Suc i =
                        (hs ! i)[snd (F ! i) :=
                           snd (pipeline_predict E (step_states F (hs ! i))
                                  (hs ! i ! snd (F ! i)) (c_X (cs ! i)))]))))))"
    (is "?P1 \<and> ?P2 \<and> (\<forall>F. ?H F \<longrightarrow> ?C F)")
proof -
  have 1: ?P1 using wrong_kind_outcome [of X E self h] by blast
  have 2: ?P2 using unfitted_outcome [of self X E h] by blast
  have 3: "?C F" if a: "?H F" for F
  proof -
    from a have ok: "py_type_of X \<in> {PandasDataFrame, Dictionary}"
      and sf: "steps_fitted self = Some F" by simp_all
    from never_fitted_tags [OF assms, of F] sf have tags: "map fst F = map fst (steps self)" by simp
    show ?thesis
      by (rule conjI [OF tags conjI [OF transform_fitted_run [OF ok sf] predict_fitted_run [OF ok sf]]])
  qed
  then have "\<forall>F. ?H F \<longrightarrow> ?C F" by blast
  with 1 2 show ?thesis by (intro conjI)
qed

theorem before_successful_fit_witness:
  "never_fitted demo (pipe_plain_failed, store_failed) \<and>
   steps_fitted pipe_plain_failed = Some [(''gen'', 2), (''opt'', 3)] \<and>
   result (transform demo pipe_plain_failed store_failed table0) = Inr (PyDataFrame (4, 25)) \<and>
   last_out table0 (trace (transform demo pipe_plain_failed store_failed table0)) =
     Inr (PyDataFrame (4, 25)) \<and>
   map c_tag (trace (transform demo pipe_plain_failed store_failed table0)) = [''gen'', ''opt''] \<and>
   result (predict demo pipe_plain_failed store_failed table0) = Inr (PySeries (4, 15)) \<and>
   c_out (last (trace (predict demo pipe_plain_failed store_failed table0))) =
     Inr (PySeries (4, 15)) \<and>
   never_fitted demo (pipe_plain, store0) \<and>
   transform demo pipe_plain store0 table0 =
     \<lparr>result = Inl (UnsetAttributeError ''steps_''), self_after = pipe_plain, heap_after = store0,
      trace = []\<rparr> \<and>
   predict demo pipe_plain store0 table0 =
     \<lparr>result = Inl (UnsetAttributeError ''steps_''), self_after = pipe_plain, heap_after = store0,
      trace = []\<rparr>"
proof -
  have nf0: "never_fitted demo (pipe_plain, store0)"
    by (rule nf_unfitted) (simp add: demo_pipes)
  from nf_failed_fit [OF nf0, of dict0 target0 PyNone "StepError ''gen''"]
  have nf1: "never_fitted demo (pipe_plain_failed, store_failed)"
    by (simp add: demo_fit_failed)
  have sf: "steps_fitted pipe_plain_failed = Some [(''gen'', 2), (''opt'', 3)]"
    by (simp add: pipe_plain_failed_def)
  from before_successful_fit [OF nf1, of table0] before_successful_fit [OF nf0, of table0]
    nf0 nf1 sf
  show ?thesis
    by (simp add: table0_type demo_pipes demo_transform_failed demo_predict_failed last_out_def)
qed

text \<open>
  C4 as the specification states it fails on the example pipeline: while \<open>steps_\<close> is
  unassigned the outcome of \<open>transform\<close> and of \<open>predict\<close> is the downstream error, not a
  not-fitted error, and after a \<open>fit\<close> that has failed in its first step they do not fail
  at all.
\<close>

theorem unfitted_not_explicit:
  "result (transform demo pipe_plain store0 table0) = Inl (UnsetAttributeError ''steps_'') \<and>
   result (transform demo pipe_plain store0 table0) \<noteq> Inl NotFittedError \<and>
   result (predict demo pipe_plain store0 table0) = Inl (UnsetAttributeError ''steps_'') \<and>
   result (predict demo pipe_plain store0 table0) \<noteq> Inl NotFittedError \<and>
   result (fit demo pipe_plain store0 dict0 target0 PyNone) = Inl (StepError ''gen'') \<and>
   result (transform demo (self_after (fit demo pipe_plain store0 dict0 target0 PyNone))
             (heap_after (fit demo pipe_plain store0 dict0 target0 PyNone)) table0) =
     Inr (PyDataFrame (4, 25)) \<and>
   result (predict demo (self_after (fit demo pipe_plain store0 dict0 target0 PyNone))
             (heap_after (fit demo pipe_plain store0 dict0 target0 PyNone)) table0) =
     Inr (PySeries (4, 15))"
proof -
  have "result (transform demo pipe_plain store0 table0) = Inl (UnsetAttributeError ''steps_'')"
    "result (predict demo pipe_plain store0 table0) = Inl (UnsetAttributeError ''steps_'')"
    by (simp_all add: demo_defs)
  then show ?thesis
    by (simp add: demo_fit_failed demo_transform_failed demo_predict_failed)
qed

section \<open>Composed methods and the attributes of the pipeline\<close>

text \<open>
  C6. \<open>fit_transform\<close> is \<open>fit\<close> followed by \<open>transform\<close> on the same \<open>X\<close>, and
  \<open>fit_predict\<close> is \<open>fit\<close> followed by \<open>predict\<close>: an exception of \<open>fit\<close> is the outcome
  of the whole method, and otherwise the result, the pipeline and the store are those of
  the second method run after \<open>fit\<close> on the caller's \<open>X\<close>, and the calls on steps are
  those of \<open>fit\<close> followed by those of the second method.
\<close>

theorem fit_then_transform_predict:
  "(\<forall>e. result (fit E self h X y sw) = Inl e \<longrightarrow>
      fit_transform E self h X y sw = fit E self h X y sw \<and>
      fit_predict E self h X y sw = fit E self h X y sw) \<and>
   (\<forall>v. result (fit E self h X y sw) = Inr v \<longrightarrow>
      (let o1 = fit E self h X y sw;
           o2 = transform E (self_after o1) (heap_after o1) X;
           o3 = predict E (self_after o1) (heap_after o1) X
       in result (fit_transform E self h X y sw) = result o2 \<and>
          self_after (fit_transform E self h X y sw) = self_after o2 \<and>
          heap_after (fit_transform E self h X y sw) = heap_after o2 \<and>
          trace (fit_transform E self h X y sw) = trace o1 @ trace o2 \<and>
          result (fit_predict E self h X y sw) = result o3 \<and>
          self_after (fit_predict E self h X y sw) = self_after o3 \<and>
          heap_after (fit_predict E self h X y sw) = heap_after o3 \<and>
          trace (fit_predict E self h X y sw) = trace o1 @ trace o3))"
  by (simp add: fit_transform_def fit_predict_def Let_def)

theorem fit_then_transform_predict_witness:
  "result (fit demo pipe_init store0 table0 target0 PyNone) = Inr PyNone \<and>
   result (fit_transform demo pipe_init store0 table0 target0 PyNone) = Inr (PyDataFrame (3, 15)) \<and>
   result (fit_predict demo pipe_init store0 table0 target0 PyNone) = Inr (PySeries (3, 6)) \<and>
   map c_method (trace (fit_transform demo pipe_init store0 table0 target0 PyNone)) =
     [FitTransform, Fit, Transform, Transform] \<and>
   map c_method (trace (fit_predict demo pipe_init store0 table0 target0 PyNone)) =
     [FitTransform, Fit, Transform, Predict] \<and>
   result (fit demo pipe_init store0 (PyList []) target0 PyNone) = Inl (TypeError ''X'') \<and>
   fit_transform demo pipe_init store0 (PyList []) target0 PyNone =
     fit demo pipe_init store0 (PyList []) target0 PyNone"
proof -
  have bad: "fit demo pipe_init store0 (PyList []) target0 PyNone =
      \<lparr>result = Inl (TypeError ''X''), self_after = pipe_init, heap_after = store0, trace = []\<rparr>"
    by (simp add: fit_def check_allowed_types_def)
  from fit_then_transform_predict [of demo pipe_init store0 table0 target0 PyNone]
    fit_then_transform_predict [of demo pipe_init store0 "PyList []" target0 PyNone]
  show ?thesis
    by (simp add: demo_fit_init demo_transform_init demo_predict_init bad)
qed

text \<open>
  C10. After any number of calls of \<open>transform\<close> and \<open>predict\<close> the attributes \<open>steps_\<close>,
  \<open>rules\<close>, \<open>steps\<close> and \<open>use_init_data\<close> of the pipeline are what they were before the
  calls. \<open>fit\<close> leaves \<open>steps\<close> and \<open>use_init_data\<close> as they are and, when it returns,
  has assigned \<open>steps_\<close> and \<open>rules\<close>.
\<close>

theorem transform_predict_frame:
  assumes "after_calls E (self, h) (self', h')"
  shows "steps_fitted self' = steps_fitted self \<and> rules self' = rules self \<and>
         steps self' = steps self \<and> use_init_data self' = use_init_data self \<and>
         steps (self_after (fit E self h X y sw)) = steps self \<and>
         use_init_data (self_after (fit E self h X y sw)) = use_init_data self \<and>
         (\<forall>v. result (fit E self h X y sw) = Inr v \<longrightarrow>
              steps_fitted (self_after (fit E self h X y sw)) \<noteq> None \<and>
              rules (self_after (fit E self h X y sw)) \<noteq> None)"
  using after_calls_self [OF assms] fit_attributes [of E self h X y sw]
    fit_assigns [of E self h X y sw] by simp

theorem transform_predict_frame_witness:
  "after_calls demo (pipe_init_fitted, store_fitted)
     (self_after (predict demo pipe_init_fitted store_fitted table0),
      heap_after (predict demo pipe_init_fitted store_fitted table0)) \<and>
   steps_fitted (self_after (predict demo pipe_init_fitted store_fitted table0)) =
     Some [(''gen'', 2), (''opt'', 3)] \<and>
   rules (self_after (predict demo pipe_init_fitted store_fitted table0)) = Some [5] \<and>
   steps (self_after (predict demo pipe_init_fitted store_fitted table0)) = gen_opt \<and>
   use_init_data (self_after (predict demo pipe_init_fitted store_fitted table0)) =
     Some [PyStr ''opt'']"
proof -
  have "after_calls demo (pipe_init_fitted, store_fitted) (pipe_init_fitted, store_fitted)"
    by (rule no_call)
  from transform_call [OF this, of table0]
  have "after_calls demo (pipe_init_fitted, store_fitted) (pipe_init_fitted, store_fitted)"
    by (simp add: demo_transform_init)
  from predict_call [OF this, of table0]
  have ac: "after_calls demo (pipe_init_fitted, store_fitted)
     (self_after (predict demo pipe_init_fitted store_fitted table0),
      heap_after (predict demo pipe_init_fitted store_fitted table0))" .
  from transform_predict_frame [OF ac, of table0 target0 PyNone] ac show ?thesis
    by (simp add: pipe_init_fitted_def)
qed



end
